theory Spec2Isabelle
  imports Complex_Main "HOL-Library.Word"
begin

section \<open>Shared vocabulary: exit codes, observable events\<close>

text \<open>
  Both programs of the repository (the loader and \<^verbatim>\<open>xdp_stats.c\<close>) are single-threaded C
  programs whose behaviour is a sequence of calls into libc, libbpf and libxdp.  Each C
  function is embedded as a HOL function that returns its C result together with the list
  of observable events it produced, in program order.  The results of the external
  calls are parameters (fields of an environment record), so every theorem holds for
  whatever the collaborators answer.
\<close>

type_synonym u32 = "32 word"
type_synonym u64 = "64 word"

text \<open>
  Modelled from the spec: the exit codes of \<^verbatim>\<open>common/common_defines.h\<close>, which is not among
  the sources.  The spec (section 6) fixes \<open>0\<close> for success and distinct nonzero codes for
  the failures; the proofs below use nothing but these two facts.
\<close>

definition EXIT_OK :: int where "EXIT_OK = 0"
definition EXIT_FAIL :: int where "EXIT_FAIL = 1"
definition EXIT_FAIL_OPTION :: int where "EXIT_FAIL_OPTION = 2"
definition EXIT_FAIL_BPF :: int where "EXIT_FAIL_BPF = 40"

text \<open>
  An argument of a \<^verbatim>\<open>printf\<close> call.  \<open>PStrerror e\<close> stands for the text
  \<^verbatim>\<open>strerror(e)\<close> (or \<^verbatim>\<open>libxdp_strerror\<close>), \<open>PErrno\<close> for \<^verbatim>\<open>strerror(errno)\<close>.
  A \<^verbatim>\<open>double\<close> is either a finite value, carried as a real number (the rounding of the
  machine format is not modelled), or the infinity or NaN that a division by zero
  produces.
\<close>

datatype double = Finite real | Inf_or_NaN

datatype parg =
  PStr string | PInt int | PU32 u32 | PU64 u64 | PDbl double | PStrerror int | PErrno

text \<open>
  How a process can stop before \<^verbatim>\<open>main\<close> returns on its own: by \<^verbatim>\<open>exit(c)\<close> (a return
  of \<^verbatim>\<open>main\<close> with the code \<open>c\<close> is the same outcome), or killed by the kernel when it
  touches memory beyond its stack.
\<close>

datatype halt = Exit int | Killed_SIGSEGV

text \<open>
  One event per output statement and per external call that acts on the kernel, the
  bpf filesystem or the clock; a call carries its arguments and its result.
\<close>

datatype event =
    Printf string "parg list"
  | Eprintf string "parg list"
  | Unpin_maps string int
  | Pin_maps string int
  | Obj_get string int
  | Reuse_fd string int int
  | Close int
  | Prog_create string string int
  | Prog_attach int int int
  | Prog_close
  | Clock_gettime int int int
  | Map_lookup int u32 int
  | Open_map_file string string int
  | Usleep nat
  | Sleep int
  | Setlocale
  | Usage

section \<open>The loader: pinning, reuse and attach\<close>

definition PATH_MAX :: nat where "PATH_MAX = 4096"

definition pin_basedir :: string where "pin_basedir = ''/sys/fs/bpf''"
definition map_name :: string where "map_name = ''xdp_stats_map''"

text \<open>The declarations of a loaded object file: the names of the maps it declares.\<close>

record bpf_object =
  obj_maps :: "string list"

record xdp_program =
  prog_name :: string
  bpf_obj :: bpf_object

record config =
  filename :: string
  progname :: string
  ifname :: string
  ifindex :: int
  attach_mode :: int
  do_unload :: bool

text \<open>
  The loader's collaborators.  \<open>fs\<close> is the set of paths at which an object exists;
  \<open>snprintf_ret\<close> is what \<^verbatim>\<open>snprintf\<close> returns for a formatted text (libc returns its
  length, or a negative value on an output error); the other fields are the results of
  the libbpf and libxdp calls of the same name.  \<open>verbose\<close> is the global flag of
  \<^verbatim>\<open>common_params\<close>.
\<close>

record loader_env =
  verbose :: int
  snprintf_ret :: "string \<Rightarrow> int"
  fs :: "string set"
  bpf_obj_get :: "string \<Rightarrow> int"
  bpf_map__reuse_fd :: "string \<Rightarrow> int \<Rightarrow> int"
  bpf_object__unpin_maps :: "string \<Rightarrow> int"
  bpf_object__pin_maps :: "string \<Rightarrow> int"
  xdp_program__create :: "string \<Rightarrow> string \<Rightarrow> int \<times> xdp_program"
  xdp_program__attach :: "xdp_program \<Rightarrow> int \<Rightarrow> int \<Rightarrow> int"

text \<open>\<^verbatim>\<open>snprintf(buf, size, ...)\<close>: the return value and the text left in the buffer.\<close>

definition c_snprintf :: "(string \<Rightarrow> int) \<Rightarrow> nat \<Rightarrow> string \<Rightarrow> int \<times> string" where
  "c_snprintf ret sz s = (ret s, take (sz - 1) s)"

text \<open>\<^verbatim>\<open>access(path, F_OK)\<close>: 0 when an object exists at the path, -1 otherwise.\<close>

definition access_F_OK :: "loader_env \<Rightarrow> string \<Rightarrow> int" where
  "access_F_OK E p = (if p \<in> fs E then 0 else - 1)"

text \<open>\<^verbatim>\<open>if (verbose) printf(...)\<close>.\<close>

definition vprintf :: "loader_env \<Rightarrow> string \<Rightarrow> parg list \<Rightarrow> event list" where
  "vprintf E fmt args = (if verbose E \<noteq> 0 then [Printf fmt args] else [])"

text \<open>A map of an object is identified by its name; \<open>None\<close> is the NULL pointer.\<close>

definition bpf_object__find_map_by_name :: "bpf_object \<Rightarrow> string \<Rightarrow> string option" where
  "bpf_object__find_map_by_name obj n = (if n \<in> set (obj_maps obj) then Some n else None)"

text \<open>
  \<^verbatim>\<open>pin_maps_in_bpf_object\<close>.  The two \<^verbatim>\<open>snprintf\<close> calls come first; the unpin call is
  made only when \<^verbatim>\<open>access\<close> finds the map file, and its failure returns at once.
\<close>

definition pin_maps_in_bpf_object :: "loader_env \<Rightarrow> bpf_object \<Rightarrow> string \<Rightarrow> int \<times> event list" where
  "pin_maps_in_bpf_object E obj subdir =
    (let (len1, pin_dir) = c_snprintf (snprintf_ret E) PATH_MAX (pin_basedir @ ''/'' @ subdir) in
     if len1 < 0 then (EXIT_FAIL_OPTION, [Eprintf ''ERR: creating pin dirname\<newline>'' []])
     else
       let (len2, map_filename) =
             c_snprintf (snprintf_ret E) PATH_MAX (pin_basedir @ ''/'' @ subdir @ ''/'' @ map_name) in
       if len2 < 0 then (EXIT_FAIL_OPTION, [Eprintf ''ERR: creating map_name\<newline>'' []])
       else
         let (failed, t1) =
               (if access_F_OK E map_filename \<noteq> - 1 then
                  (let v = vprintf E '' - Unpinning (remove) prev maps in %s/\<newline>'' [PStr pin_dir];
                       err = bpf_object__unpin_maps E pin_dir
                   in if err \<noteq> 0
                      then (True, v @ [Unpin_maps pin_dir err,
                                       Eprintf ''ERR: UNpinning maps in %s\<newline>'' [PStr pin_dir]])
                      else (False, v @ [Unpin_maps pin_dir err]))
                else (False, []))
         in
         if failed then (EXIT_FAIL_BPF, t1)
         else
           let t2 = t1 @ vprintf E '' - Pinning maps in %s/\<newline>'' [PStr pin_dir];
               err = bpf_object__pin_maps E pin_dir
           in if err \<noteq> 0 then (EXIT_FAIL_BPF, t2 @ [Pin_maps pin_dir err])
              else (0, t2 @ [Pin_maps pin_dir err,
                             Printf ''Leaving pin_maps_in_bpf_object...\<newline>'' []]))"

text \<open>
  \<^verbatim>\<open>reuse_pinned_map\<close>: 0 when there is nothing to reuse, 1 when the pinned map now backs
  the object's declaration, -1 on the failures the caller treats as fatal.
\<close>

definition reuse_pinned_map :: "loader_env \<Rightarrow> bpf_object \<Rightarrow> string \<Rightarrow> int \<times> event list" where
  "reuse_pinned_map E obj subdir =
    (let (len, pin_path) =
           c_snprintf (snprintf_ret E) PATH_MAX (pin_basedir @ ''/'' @ subdir @ ''/'' @ map_name) in
     if len < 0 then (- 1, [Eprintf ''ERR: creating pin path\<newline>'' []])
     else if access_F_OK E pin_path \<noteq> 0
     then (0, vprintf E '' - No existing pinned map found\<newline>'' [])
     else
       let pinned_fd = bpf_obj_get E pin_path;
           t1 = [Obj_get pin_path pinned_fd]
       in
       if pinned_fd < 0
       then (0, t1 @ vprintf E '' - Failed to open pinned map: %s\<newline>'' [PErrno])
       else
         let t2 = t1 @ vprintf E '' - Found existing pinned map at %s\<newline>'' [PStr pin_path] in
         (case bpf_object__find_map_by_name obj map_name of
            None \<Rightarrow>
              (- 1, t2 @ [Eprintf ''ERR: cannot find map '%s' in BPF object\<newline>'' [PStr map_name],
                          Close pinned_fd])
          | Some m \<Rightarrow>
              let err = bpf_map__reuse_fd E m pinned_fd in
              if err \<noteq> 0
              then (- 1, t2 @ [Reuse_fd m pinned_fd err,
                              Eprintf ''ERR: failed to reuse pinned map: %s\<newline>'' [PStrerror (- err)],
                              Close pinned_fd])
              else (1, t2 @ [Reuse_fd m pinned_fd err]
                          @ vprintf E '' - Successfully reused pinned map\<newline>'' []
                          @ [Printf ''Leaving reuse_pinned_map\<newline>'' []])))"

text \<open>
  \<^verbatim>\<open>load_bpf_and_xdp_attach_with_reuse\<close>: \<open>None\<close> is the NULL return of the
  \<^verbatim>\<open>error\<close> label.
\<close>

definition load_error_msg :: event where
  "load_error_msg = Eprintf
     ''ERR: Failed to load and attach XDP program. Leaving load_bpf_and_xdp_attach_with_reuse...\<newline>'' []"

definition load_bpf_and_xdp_attach_with_reuse ::
    "loader_env \<Rightarrow> config \<Rightarrow> xdp_program option \<times> event list" where
  "load_bpf_and_xdp_attach_with_reuse E cfg =
    (let (err0, program) = xdp_program__create E (filename cfg) (progname cfg);
         t0 = [Prog_create (filename cfg) (progname cfg) err0]
     in
     if err0 \<noteq> 0
     then (None, t0 @ [Eprintf ''ERR: Failed to create XDP program: %s\<newline>'' [PStrerror err0],
                       load_error_msg])
     else
       let obj = bpf_obj program;
           (err1, tr) = reuse_pinned_map E obj (ifname cfg);
           t1 = t0 @ tr;
           map_reused = (if err1 > 0 then (1::int) else 0)
       in
       if \<not> err1 > 0 \<and> err1 < 0
       then (None, t1 @ [Eprintf ''ERR: Failed to reuse pinned map\<newline>'' [], Prog_close,
                         load_error_msg])
       else
         let err2 = xdp_program__attach E program (ifindex cfg) (attach_mode cfg);
             t2 = t1 @ [Prog_attach (ifindex cfg) (attach_mode cfg) err2]
         in
         if err2 \<noteq> 0
         then (None, t2 @ [Eprintf ''ERR: Failed to attach XDP program\<newline>'' [], Prog_close,
                           load_error_msg])
         else
           let t3 =
                 (if map_reused = 0 then
                    (let (err3, tp) = pin_maps_in_bpf_object E obj (ifname cfg) in
                     if err3 \<noteq> 0 then tp @ [Eprintf ''ERR: pinning maps\<newline>'' []] else tp)
                  else vprintf E '' - Skipped map pinning (reused existing)\<newline>'' [])
           in (Some program,
               t2 @ t3 @ [Printf ''Leaving load_bpf_and_xdp_attach_with_reuse...\<newline>'' []]))"

text \<open>
  \<^verbatim>\<open>main\<close> of the loader, from the configuration that \<^verbatim>\<open>parse_cmdline_args\<close> leaves.
  The \<^verbatim>\<open>do_unload\<close> branch is empty in the source.
\<close>

definition xdp_loader_main :: "loader_env \<Rightarrow> config \<Rightarrow> int \<times> event list" where
  "xdp_loader_main E cfg =
    (if ifindex cfg = - 1
     then (EXIT_FAIL_OPTION, [Eprintf ''ERR: required option --dev missing\<newline>\<newline>'' [], Usage])
     else
       let (program, t) = load_bpf_and_xdp_attach_with_reuse E cfg in
       if program = None then (EXIT_FAIL_BPF, t)
       else (EXIT_OK,
             t @ (if verbose E \<noteq> 0
                  then [Printf ''Success: Loaded BPF-object(%s) and used program(%s)\<newline>''
                          [PStr (filename cfg), PStr (progname cfg)],
                        Printf '' - XDP prog attached on device:%s(ifindex:%d)\<newline>''
                          [PStr (ifname cfg), PInt (ifindex cfg)]]
                  else [])))"

section \<open>The statistics reporter\<close>

definition NANOSEC_PER_SEC :: nat where "NANOSEC_PER_SEC = 1000000000"

text \<open>The two map kinds of the kernel's \<^verbatim>\<open>enum bpf_map_type\<close> that the reporter reads.\<close>

definition BPF_MAP_TYPE_ARRAY :: u32 where "BPF_MAP_TYPE_ARRAY = 2"
definition BPF_MAP_TYPE_PERCPU_ARRAY :: u32 where "BPF_MAP_TYPE_PERCPU_ARRAY = 6"

text \<open>
  Modelled from the spec: \<^verbatim>\<open>struct datarec\<close> of \<^verbatim>\<open>common_kern_user.h\<close>, which is not among
  the sources: a Counter Record holds an accumulating packet count and an accumulating
  byte count.  The code reads both into \<^verbatim>\<open>__u64\<close> variables.
\<close>

record datarec =
  rx_packets :: u64
  rx_bytes :: u64

text \<open>
  \<^verbatim>\<open>struct record\<close> and \<^verbatim>\<open>struct stats_record\<close>.  The latter is an array of
  \<^verbatim>\<open>XDP_ACTION_MAX\<close> records; it is carried as a list, and every list that the program
  builds has that many entries (it starts from \<open>replicate\<close> and is only updated in
  place).
\<close>

record rec_t =
  timestamp :: u64
  total :: datarec

type_synonym stats_record = "rec_t list"

text \<open>The fields of \<^verbatim>\<open>struct bpf_map_info\<close> that the reporter reads.\<close>

record bpf_map_info =
  info_type :: u32
  info_id :: u32
  info_name :: string
  key_size :: u32
  value_size :: u32
  max_entries :: u32

text \<open>
  The reporter's collaborators.  The clock, the map and the pinned file change between
  two calls, so each is a function of the number of calls made before: the \<open>n\<close>-th
  \<^verbatim>\<open>clock_gettime\<close> returns a result code and a \<^verbatim>\<open>timespec\<close>; the \<open>n\<close>-th
  \<^verbatim>\<open>bpf_map_lookup_elem\<close> returns a result code and, when that is 0, the values it wrote
  (one per CPU, a single one at index 0 for a plain array); the \<open>n\<close>-th
  \<^verbatim>\<open>open_bpf_map_file\<close> returns a descriptor (negative on failure) and what the info
  structure holds afterwards.  \<open>uninit_value n\<close> is what the uninitialised local
  \<^verbatim>\<open>value\<close> of \<^verbatim>\<open>map_collect\<close> holds before the \<open>n\<close>-th lookup.
  \<open>stack_room\<close> is the number of \<^verbatim>\<open>struct datarec\<close> that fit into the stack that is left
  when \<^verbatim>\<open>map_get_value_percpu_array\<close> is entered.
  \<open>xdp_action_max\<close> is the constant \<^verbatim>\<open>XDP_ACTION_MAX\<close> and \<open>action2str\<close> the
  helper of that name, both declared outside the sources.
\<close>

record stats_env =
  s_verbose :: int
  xdp_action_max :: nat
  action2str :: "nat \<Rightarrow> string"
  s_snprintf_ret :: "string \<Rightarrow> int"
  clock_gettime :: "nat \<Rightarrow> int \<times> int \<times> int"
  libbpf_num_possible_cpus :: int
  stack_room :: nat
  bpf_map_lookup_elem :: "nat \<Rightarrow> int \<Rightarrow> u32 \<Rightarrow> int \<times> (nat \<Rightarrow> datarec)"
  uninit_value :: "nat \<Rightarrow> datarec"
  open_bpf_map_file :: "nat \<Rightarrow> string \<Rightarrow> string \<Rightarrow> bpf_map_info \<Rightarrow> int \<times> bpf_map_info"

text \<open>The state of the reporter process: how often each collaborator was called, and
  the events so far.\<close>

record pstate =
  n_clock :: nat
  n_lookup :: nat
  n_open :: nat
  trace :: "event list"

definition emit :: "event list \<Rightarrow> pstate \<Rightarrow> pstate" where
  "emit es s = s\<lparr>trace := trace s @ es\<rparr>"

text \<open>
  \<^verbatim>\<open>gettime\<close>: \<open>Inl (Exit c)\<close> is \<^verbatim>\<open>exit(c)\<close>.  The arithmetic is that of \<^verbatim>\<open>__u64\<close>.
\<close>

definition gettime :: "stats_env \<Rightarrow> pstate \<Rightarrow> (halt + u64) \<times> pstate" where
  "gettime E s =
    (let (res, tv_sec, tv_nsec) = clock_gettime E (n_clock s);
         s1 = emit [Clock_gettime res tv_sec tv_nsec] (s\<lparr>n_clock := n_clock s + 1\<rparr>)
     in
     if res < 0
     then (Inl (Exit EXIT_FAIL),
           emit [Eprintf ''Error with gettimeofday! (%i)\<newline>'' [PInt res]] s1)
     else (Inr (word_of_int tv_sec * of_nat NANOSEC_PER_SEC + word_of_int tv_nsec), s1))"

text \<open>Conversion of a \<^verbatim>\<open>__u64\<close> to \<^verbatim>\<open>double\<close>, and the division of two doubles.\<close>

definition of_u64 :: "u64 \<Rightarrow> double" where
  "of_u64 x = Finite (real (unat x))"

fun ddiv :: "double \<Rightarrow> double \<Rightarrow> double" where
  "ddiv (Finite a) (Finite b) = (if b = 0 then Inf_or_NaN else Finite (a / b))"
| "ddiv _ _ = Inf_or_NaN"

definition calc_period :: "rec_t \<Rightarrow> rec_t \<Rightarrow> double" where
  "calc_period r p =
    (let period = timestamp r - timestamp p in
     if period > 0 then ddiv (of_u64 period) (Finite (real NANOSEC_PER_SEC)) else Finite 0)"

definition head_fmt :: string where
  "head_fmt = ''%-12s %16s %16s %18s %16s %s\<newline>''"

definition stats_print_header :: "event list" where
  "stats_print_header =
    [Printf ''\<newline>'' [],
     Printf head_fmt [PStr ''XDP-action'', PStr ''packets'', PStr ''packet rate'',
                      PStr ''Bytes'', PStr ''Bit rate'', PStr ''Time period''],
     Printf head_fmt [PStr ''------------'', PStr ''----------------'',
                      PStr ''----------------'', PStr ''------------------'',
                      PStr ''----------------'', PStr ''---------------'']]"

definition row_fmt :: string where
  "row_fmt = ''%-12s %'11lld pkts (%'10.0f pps) %'11lld Kbytes (%'6.0f Mbits/s) period:%f\<newline>''"

text \<open>The part of the loop body of \<^verbatim>\<open>stats_print\<close> after the test of the period.\<close>

definition stats_print_row :: "stats_env \<Rightarrow> nat \<Rightarrow> rec_t \<Rightarrow> rec_t \<Rightarrow> double \<Rightarrow> event" where
  "stats_print_row E i r prev period =
    (let packets = rx_packets (total r) - rx_packets (total prev);
         pps = ddiv (of_u64 packets) period;
         bytes = rx_bytes (total r) - rx_bytes (total prev);
         bps = ddiv (ddiv (of_u64 (bytes * 8)) period) (Finite 1000000)
     in Printf row_fmt [PStr (action2str E i), PU64 (rx_packets (total r)), PDbl pps,
                        PU64 (rx_bytes (total r) div 1000), PDbl bps, PDbl period])"

text \<open>
  The loop of \<^verbatim>\<open>stats_print\<close> over the keys still to print.  A period of zero returns
  from the function; after the last key the closing line is printed.
\<close>

fun stats_print_loop :: "stats_env \<Rightarrow> nat list \<Rightarrow> stats_record \<Rightarrow> stats_record \<Rightarrow> event list" where
  "stats_print_loop E [] stats_rec stats_prev = [Printf ''\<newline>'' []]"
| "stats_print_loop E (i # is) stats_rec stats_prev =
    (let r = stats_rec ! i;
         prev = stats_prev ! i;
         period = calc_period r prev
     in if period = Finite 0 then []
        else stats_print_row E i r prev period # stats_print_loop E is stats_rec stats_prev)"

definition stats_print :: "stats_env \<Rightarrow> stats_record \<Rightarrow> stats_record \<Rightarrow> event list" where
  "stats_print E stats_rec stats_prev =
    stats_print_header @ stats_print_loop E [0..<xdp_action_max E] stats_rec stats_prev"

text \<open>
  \<^verbatim>\<open>map_get_value_array\<close> and \<^verbatim>\<open>map_get_value_percpu_array\<close>: the argument \<open>v\<close> is what
  the caller's buffer holds before the call, the result what it holds afterwards.  A
  failed lookup writes nothing.

  The per-CPU variant first declares the array \<^verbatim>\<open>struct datarec values[nr_cpus]\<close> on its
  stack, where \<^verbatim>\<open>nr_cpus\<close> is the result of \<^verbatim>\<open>libbpf_num_possible_cpus()\<close> read as
  \<^verbatim>\<open>unsigned int\<close>.  A negative (error) result is a count of \<open>2 ^ 31\<close> or more, an array
  of at least 32 GiB: such an array, like any array larger than the stack that is left,
  puts the stack pointer outside the stack, and the process is killed at the call that
  follows, before the lookup is made.
\<close>

definition nr_cpus :: "stats_env \<Rightarrow> nat" where
  "nr_cpus E = unat (word_of_int (libbpf_num_possible_cpus E) :: u32)"

definition values_fit :: "stats_env \<Rightarrow> bool" where
  "values_fit E = (nr_cpus E < 2 ^ 31 \<and> nr_cpus E \<le> stack_room E)"

definition lookup_failed_msg :: "u32 \<Rightarrow> event" where
  "lookup_failed_msg k = Eprintf ''ERR: bpf_map_lookup_elem failed key:0x%X\<newline>'' [PU32 k]"

definition map_get_value_array :: "stats_env \<Rightarrow> int \<Rightarrow> u32 \<Rightarrow> datarec \<Rightarrow> pstate \<Rightarrow> datarec \<times> pstate" where
  "map_get_value_array E fd k v s =
    (let (ret, vals) = bpf_map_lookup_elem E (n_lookup s) fd k;
         s1 = emit [Map_lookup fd k ret] (s\<lparr>n_lookup := n_lookup s + 1\<rparr>)
     in if ret \<noteq> 0 then (v, emit [lookup_failed_msg k] s1) else (vals 0, s1))"

definition map_get_value_percpu_array ::
    "stats_env \<Rightarrow> int \<Rightarrow> u32 \<Rightarrow> datarec \<Rightarrow> pstate \<Rightarrow> (halt + datarec) \<times> pstate" where
  "map_get_value_percpu_array E fd k v s =
    (if \<not> values_fit E then (Inl Killed_SIGSEGV, s)
     else
       let (ret, vals) = bpf_map_lookup_elem E (n_lookup s) fd k;
           s1 = emit [Map_lookup fd k ret] (s\<lparr>n_lookup := n_lookup s + 1\<rparr>)
       in if ret \<noteq> 0 then (Inr v, emit [lookup_failed_msg k] s1)
          else
            let (sum_pkts, sum_bytes) =
                  fold (\<lambda>i (p, b). (p + rx_packets (vals i), b + rx_bytes (vals i)))
                       [0..<nr_cpus E] (0, 0)
            in (Inr (v\<lparr>rx_packets := sum_pkts, rx_bytes := sum_bytes\<rparr>), s1))"

text \<open>
  \<^verbatim>\<open>map_collect\<close>: the record with its new timestamp and, unless the map type is unknown,
  the counters copied from the local \<^verbatim>\<open>value\<close>.  That local is declared without an
  initialiser, so it starts as \<open>uninit_value\<close>.
\<close>

definition map_collect ::
    "stats_env \<Rightarrow> int \<Rightarrow> u32 \<Rightarrow> u32 \<Rightarrow> rec_t \<Rightarrow> pstate \<Rightarrow> (halt + bool \<times> rec_t) \<times> pstate" where
  "map_collect E fd map_type k r s =
    (case gettime E s of
       (Inl c, s1) \<Rightarrow> (Inl c, s1)
     | (Inr t, s1) \<Rightarrow>
         let r1 = r\<lparr>timestamp := t\<rparr>;
             value0 = uninit_value E (n_lookup s1)
         in
         if map_type = BPF_MAP_TYPE_ARRAY then
           (let (v, s2) = map_get_value_array E fd k value0 s1 in
            (Inr (True, r1\<lparr>total := \<lparr>rx_packets = rx_packets v, rx_bytes = rx_bytes v\<rparr>\<rparr>), s2))
         else if map_type = BPF_MAP_TYPE_PERCPU_ARRAY then
           (case map_get_value_percpu_array E fd k value0 s1 of
              (Inl h, s2) \<Rightarrow> (Inl h, s2)
            | (Inr v, s2) \<Rightarrow>
                (Inr (True, r1\<lparr>total := \<lparr>rx_packets = rx_packets v, rx_bytes = rx_bytes v\<rparr>\<rparr>),
                 s2))
         else
           (Inr (False, r1),
            emit [Eprintf ''ERR: Unknown map_type(%u) cannot handle\<newline>'' [PU32 map_type]] s1))"

text \<open>\<^verbatim>\<open>stats_collect\<close>: the loop over the keys; the result of \<^verbatim>\<open>map_collect\<close> is ignored.\<close>

fun stats_collect_loop ::
    "stats_env \<Rightarrow> int \<Rightarrow> u32 \<Rightarrow> nat list \<Rightarrow> stats_record \<Rightarrow> pstate
      \<Rightarrow> (halt + stats_record) \<times> pstate" where
  "stats_collect_loop E fd map_type [] stats_rec s = (Inr stats_rec, s)"
| "stats_collect_loop E fd map_type (k # ks) stats_rec s =
    (case map_collect E fd map_type (of_nat k) (stats_rec ! k) s of
       (Inl c, s1) \<Rightarrow> (Inl c, s1)
     | (Inr (ok, r), s1) \<Rightarrow> stats_collect_loop E fd map_type ks (stats_rec[k := r]) s1)"

definition stats_collect ::
    "stats_env \<Rightarrow> int \<Rightarrow> u32 \<Rightarrow> stats_record \<Rightarrow> pstate \<Rightarrow> (halt + stats_record) \<times> pstate" where
  "stats_collect E fd map_type stats_rec s =
    stats_collect_loop E fd map_type [0..<xdp_action_max E] stats_rec s"

text \<open>
  Modelled from the spec: \<^verbatim>\<open>check_map_fd_info\<close> of \<^verbatim>\<open>common/common_user_bpf_xdp.c\<close>, which
  is not among the sources.  A consumer verifies that key size, value size and entry
  count exactly match the expected shape; a mismatch is a nonzero result.
\<close>

definition check_map_fd_info :: "bpf_map_info \<Rightarrow> bpf_map_info \<Rightarrow> int" where
  "check_map_fd_info info expected =
    (if key_size info \<noteq> key_size expected then EXIT_FAIL
     else if value_size info \<noteq> value_size expected then EXIT_FAIL
     else if max_entries info \<noteq> max_entries expected then EXIT_FAIL
     else 0)"

text \<open>
  \<^verbatim>\<open>open_check_bpf_map_file\<close>: the result code, and what \<^verbatim>\<open>*map_fd\<close> and \<^verbatim>\<open>*info\<close> hold
  afterwards.
\<close>

definition open_check_bpf_map_file ::
    "stats_env \<Rightarrow> string \<Rightarrow> string \<Rightarrow> bpf_map_info \<Rightarrow> bpf_map_info \<Rightarrow> pstate
      \<Rightarrow> (int \<times> int \<times> bpf_map_info) \<times> pstate" where
  "open_check_bpf_map_file E pin_dir mname expected info s =
    (let (fd, info1) = open_bpf_map_file E (n_open s) pin_dir mname info;
         s1 = emit [Open_map_file pin_dir mname fd] (s\<lparr>n_open := n_open s + 1\<rparr>)
     in
     if fd < 0
     then ((EXIT_FAIL_BPF, fd, info1),
           emit [Eprintf ''ERR: open_bpf_map_file failed for %s/%s\<newline>'' [PStr pin_dir, PStr mname]] s1)
     else
       let err = check_map_fd_info info1 expected in
       if err \<noteq> 0
       then ((err, fd, info1), emit [Eprintf ''ERR: map via FD not compatible\<newline>'' []] s1)
       else ((EXIT_OK, fd, info1),
             emit (if s_verbose E \<noteq> 0
                   then [Printf '' - BPF map (bpf_map_type:%d) fd:%d id:%d name:%s key_size:%d value_size:%d max_entries:%d\<newline>''
                           [PU32 (info_type info1), PInt fd, PU32 (info_id info1),
                            PStr (info_name info1), PU32 (key_size info1),
                            PU32 (value_size info1), PU32 (max_entries info1)]]
                   else []) s1))"

text \<open>
  The variables of \<^verbatim>\<open>stats_poll_map_reload\<close> that live across iterations.  (\<^verbatim>\<open>prev\<close> and
  \<^verbatim>\<open>map_id_prev\<close> are assigned in every iteration before they are read.)
\<close>

record poll_state =
  ps_map_id :: int
  ps_map_type :: u32
  ps_record :: stats_record
  ps_map_fd :: int
  ps_info :: bpf_map_info

text \<open>
  The inner \<^verbatim>\<open>while\<close> of \<^verbatim>\<open>stats_poll_map_reload\<close>, with the condition as written.
  \<open>None\<close> means that the loop never ends.
\<close>

partial_function (option) reopen_loop ::
    "stats_env \<Rightarrow> string \<Rightarrow> string \<Rightarrow> bpf_map_info \<Rightarrow> bpf_map_info \<Rightarrow> pstate
      \<Rightarrow> ((int \<times> int \<times> bpf_map_info) \<times> pstate) option" where
  "reopen_loop E pin_dir mname map_expect info s =
    (case open_check_bpf_map_file E pin_dir mname map_expect info s of
       ((err, fd, info1), s1) \<Rightarrow>
         if err = EXIT_FAIL_BPF \<or> err \<noteq> EXIT_OK
         then reopen_loop E pin_dir mname map_expect info1
                (emit [Eprintf ''ERR: map still reloading\<newline>'' [], Usleep 250000] s1)
         else Some ((err, fd, info1), s1))"

text \<open>
  One iteration of the outer \<^verbatim>\<open>while (1)\<close>.  \<open>None\<close>: the inner loop never ends;
  \<open>Some (Inl h, s)\<close>: the process stopped in the way \<open>h\<close>; \<open>Some (Inr ls, s)\<close>: the
  iteration ran to its \<^verbatim>\<open>sleep\<close>, with the variables \<open>ls\<close> for the next one.
\<close>

definition poll_iteration ::
    "stats_env \<Rightarrow> string \<Rightarrow> string \<Rightarrow> bpf_map_info \<Rightarrow> int \<Rightarrow> poll_state \<Rightarrow> pstate
      \<Rightarrow> ((halt + poll_state) \<times> pstate) option" where
  "poll_iteration E pin_dir mname map_expect interval ls s =
    (let map_id_prev = ps_map_id ls;
         s1 = emit [Close (ps_map_fd ls)] s
     in
     case reopen_loop E pin_dir mname map_expect (ps_info ls) s1 of
       None \<Rightarrow> None
     | Some ((err, fd, info), s2) \<Rightarrow>
         let map_id = sint (info_id info) in
         (case (if map_id_prev \<noteq> map_id
                then (let s3 = emit [Eprintf '' - ERR: map reloaded\<newline>'' []] s2;
                          map_type = info_type info
                      in case stats_collect E fd map_type (ps_record ls) s3 of
                           (Inl c, s4) \<Rightarrow> (Inl c, s4)
                         | (Inr r, s4) \<Rightarrow> (Inr (map_type, r), emit [Usleep 250000] s4))
                else (Inr (ps_map_type ls, ps_record ls), s2)) of
            (Inl c, s5) \<Rightarrow> Some (Inl c, s5)
          | (Inr (map_type, record0), s5) \<Rightarrow>
              let prev = record0 in
              (case stats_collect E fd map_type record0 s5 of
                 (Inl c, s6) \<Rightarrow> Some (Inl c, s6)
               | (Inr record1, s6) \<Rightarrow>
                   Some (Inr \<lparr>ps_map_id = map_id, ps_map_type = map_type, ps_record = record1,
                              ps_map_fd = fd, ps_info = info\<rparr>,
                         emit (stats_print E record1 prev @ [Sleep interval]) s6))))"

text \<open>The outer loop: it ends only when the process stops.\<close>

partial_function (option) poll_loop ::
    "stats_env \<Rightarrow> string \<Rightarrow> string \<Rightarrow> bpf_map_info \<Rightarrow> int \<Rightarrow> poll_state \<Rightarrow> pstate
      \<Rightarrow> (halt \<times> pstate) option" where
  "poll_loop E pin_dir mname map_expect interval ls s =
    (case poll_iteration E pin_dir mname map_expect interval ls s of
       None \<Rightarrow> None
     | Some (Inl c, s1) \<Rightarrow> Some (c, s1)
     | Some (Inr ls1, s1) \<Rightarrow> poll_loop E pin_dir mname map_expect interval ls1 s1)"

definition zero_rec :: rec_t where
  "zero_rec = \<lparr>timestamp = 0, total = \<lparr>rx_packets = 0, rx_bytes = 0\<rparr>\<rparr>"

text \<open>
  \<^verbatim>\<open>stats_poll_map_reload\<close>: how the process stopped and its final state, \<open>None\<close> when
  it polls forever.
\<close>

definition stats_poll_map_reload ::
    "stats_env \<Rightarrow> string \<Rightarrow> string \<Rightarrow> bpf_map_info \<Rightarrow> bpf_map_info \<Rightarrow> int \<Rightarrow> int \<Rightarrow> pstate
      \<Rightarrow> (halt \<times> pstate) option" where
  "stats_poll_map_reload E pin_dir mname map_expect info map_fd interval s =
    (let map_id = sint (info_id info);
         map_type = info_type info;
         s1 = emit [Setlocale] s
     in case stats_collect E map_fd map_type (replicate (xdp_action_max E) zero_rec) s1 of
          (Inl c, s2) \<Rightarrow> Some (c, s2)
        | (Inr record0, s2) \<Rightarrow>
            poll_loop E pin_dir mname map_expect interval
              \<lparr>ps_map_id = map_id, ps_map_type = map_type, ps_record = record0,
               ps_map_fd = map_fd, ps_info = info\<rparr>
              (emit [Usleep 250000] s2))"

definition zero_info :: bpf_map_info where
  "zero_info = \<lparr>info_type = 0, info_id = 0, info_name = [], key_size = 0, value_size = 0,
                max_entries = 0\<rparr>"

text \<open>
  \<^verbatim>\<open>main\<close> of \<^verbatim>\<open>xdp_stats.c\<close>, from the configuration that \<^verbatim>\<open>parse_cmdline_args\<close> leaves.
  The expected shape is a 4-byte key, a 16-byte \<^verbatim>\<open>struct datarec\<close> and
  \<^verbatim>\<open>XDP_ACTION_MAX\<close> entries.
\<close>

definition xdp_stats_main :: "stats_env \<Rightarrow> config \<Rightarrow> pstate \<Rightarrow> (halt \<times> pstate) option" where
  "xdp_stats_main E cfg s =
    (if ifindex cfg = - 1
     then Some (Exit EXIT_FAIL_OPTION,
                emit [Eprintf ''ERR: required option --dev missing\<newline>\<newline>'' [], Usage] s)
     else
       let (len, pin_dir) = c_snprintf (s_snprintf_ret E) PATH_MAX (pin_basedir @ ''/'' @ ifname cfg) in
       if len < 0
       then Some (Exit EXIT_FAIL_OPTION, emit [Eprintf ''ERR: creating pin dirname\<newline>'' []] s)
       else
         let map_expect = zero_info\<lparr>key_size := 4, value_size := 16,
                                     max_entries := of_nat (xdp_action_max E)\<rparr>
         in case open_check_bpf_map_file E pin_dir ''xdp_stats_map'' map_expect zero_info s of
              ((err, fd, info), s1) \<Rightarrow>
                if err \<noteq> EXIT_OK then Some (Exit err, s1)
                else stats_poll_map_reload E pin_dir ''xdp_stats_map'' map_expect info fd 2 s1)"

section \<open>Notions used to state the properties\<close>

subsection \<open>The loader\<close>

text \<open>The directory and the Pin Path that the loader computes for a device name.\<close>

definition pin_dir_of :: "string \<Rightarrow> string" where
  "pin_dir_of dev = take (PATH_MAX - 1) (pin_basedir @ ''/'' @ dev)"

definition pin_path_of :: "string \<Rightarrow> string" where
  "pin_path_of dev = take (PATH_MAX - 1) (pin_basedir @ ''/'' @ dev @ ''/'' @ map_name)"

text \<open>
  What a run did, read off its events: it called the unpin primitive; it published the
  tables (the pin primitive returned 0); it swapped the declared table for the pinned
  one (the reuse primitive returned 0); it reported a failed pin step.
\<close>

definition unpin_called :: "event list \<Rightarrow> bool" where
  "unpin_called tr = list_ex (\<lambda>e. case e of Unpin_maps d r \<Rightarrow> True | _ \<Rightarrow> False) tr"

definition pinned_by_this_run :: "event list \<Rightarrow> bool" where
  "pinned_by_this_run tr = list_ex (\<lambda>e. case e of Pin_maps d r \<Rightarrow> r = 0 | _ \<Rightarrow> False) tr"

definition table_reused :: "event list \<Rightarrow> bool" where
  "table_reused tr = list_ex (\<lambda>e. case e of Reuse_fd m fd r \<Rightarrow> r = 0 | _ \<Rightarrow> False) tr"

definition pin_failure_reported :: "event list \<Rightarrow> bool" where
  "pin_failure_reported tr = (Eprintf ''ERR: pinning maps\<newline>'' [] \<in> set tr)"

subsection \<open>Example runs of the loader\<close>

definition veth_obj :: bpf_object where
  "veth_obj = \<lparr>obj_maps = [''xdp_stats_map'']\<rparr>"

definition veth_prog :: xdp_program where
  "veth_prog = \<lparr>prog_name = ''xdp_stats1_func'', bpf_obj = veth_obj\<rparr>"

definition veth_cfg :: config where
  "veth_cfg = \<lparr>filename = ''xdp_prog_kern.o'', progname = ''xdp_stats1_func'',
               ifname = ''veth0'', ifindex = 4, attach_mode = 0, do_unload = False\<rparr>"

text \<open>A first run on the device: nothing is pinned yet, every call succeeds.\<close>

definition fresh_env :: loader_env where
  "fresh_env = \<lparr>verbose = 1, snprintf_ret = (\<lambda>s. int (length s)), fs = {},
                bpf_obj_get = (\<lambda>p. - 1), bpf_map__reuse_fd = (\<lambda>m fd. 0),
                bpf_object__unpin_maps = (\<lambda>d. 0), bpf_object__pin_maps = (\<lambda>d. 0),
                xdp_program__create = (\<lambda>f p. (0, veth_prog)),
                xdp_program__attach = (\<lambda>p i m. 0)\<rparr>"

text \<open>A pinned table exists and opens, the object declares the map, but the swap of the
  descriptor fails.\<close>

definition swap_fail_env :: loader_env where
  "swap_fail_env = \<lparr>verbose = 1, snprintf_ret = (\<lambda>s. int (length s)),
                fs = {''/sys/fs/bpf/veth0/xdp_stats_map''},
                bpf_obj_get = (\<lambda>p. 7), bpf_map__reuse_fd = (\<lambda>m fd. - 22),
                bpf_object__unpin_maps = (\<lambda>d. 0), bpf_object__pin_maps = (\<lambda>d. 0),
                xdp_program__create = (\<lambda>f p. (0, veth_prog)),
                xdp_program__attach = (\<lambda>p i m. 0)\<rparr>"

text \<open>The table pinned by an earlier run is alive: it opens and the swap succeeds.\<close>

definition live_env :: loader_env where
  "live_env = \<lparr>verbose = 1, snprintf_ret = (\<lambda>s. int (length s)),
                fs = {''/sys/fs/bpf/veth0/xdp_stats_map''},
                bpf_obj_get = (\<lambda>p. 7), bpf_map__reuse_fd = (\<lambda>m fd. 0),
                bpf_object__unpin_maps = (\<lambda>d. 0), bpf_object__pin_maps = (\<lambda>d. 0),
                xdp_program__create = (\<lambda>f p. (0, veth_prog)),
                xdp_program__attach = (\<lambda>p i m. 0)\<rparr>"

text \<open>Nothing is pinned, and publishing the tables fails.\<close>

definition pin_fail_env :: loader_env where
  "pin_fail_env = \<lparr>verbose = 1, snprintf_ret = (\<lambda>s. int (length s)), fs = {},
                bpf_obj_get = (\<lambda>p. - 1), bpf_map__reuse_fd = (\<lambda>m fd. 0),
                bpf_object__unpin_maps = (\<lambda>d. 0), bpf_object__pin_maps = (\<lambda>d. - 13),
                xdp_program__create = (\<lambda>f p. (0, veth_prog)),
                xdp_program__attach = (\<lambda>p i m. 0)\<rparr>"

subsection \<open>The reporter\<close>

text \<open>The shape that \<^verbatim>\<open>main\<close> of \<^verbatim>\<open>xdp_stats.c\<close> expects of the table.\<close>

definition expected_shape :: "stats_env \<Rightarrow> bpf_map_info" where
  "expected_shape E = zero_info\<lparr>key_size := 4, value_size := 16,
                                 max_entries := of_nat (xdp_action_max E)\<rparr>"

text \<open>
  The events of one attempt of the inner loop that failed to open: the open with its
  negative result, its error message, the loop's message and the wait of 250 ms.
\<close>

definition retry_events :: "string \<Rightarrow> string \<Rightarrow> int \<Rightarrow> event list" where
  "retry_events pin_dir mname fd =
     [Open_map_file pin_dir mname fd,
      Eprintf ''ERR: open_bpf_map_file failed for %s/%s\<newline>'' [PStr pin_dir, PStr mname],
      Eprintf ''ERR: map still reloading\<newline>'' [],
      Usleep 250000]"

text \<open>The info structure and the state after \<open>k\<close> such attempts in a row.\<close>

fun failed_opens ::
    "stats_env \<Rightarrow> string \<Rightarrow> string \<Rightarrow> nat \<Rightarrow> bpf_map_info \<Rightarrow> pstate \<Rightarrow> bpf_map_info \<times> pstate" where
  "failed_opens E pin_dir mname 0 info s = (info, s)"
| "failed_opens E pin_dir mname (Suc k) info s =
     (let (info1, s1) = failed_opens E pin_dir mname k info s;
          (fd, info2) = open_bpf_map_file E (n_open s1) pin_dir mname info1
      in (info2, emit (retry_events pin_dir mname fd) (s1\<lparr>n_open := n_open s1 + 1\<rparr>)))"

subsection \<open>Example runs of the reporter\<close>

definition action_names :: "string list" where
  "action_names = [''XDP_ABORTED'', ''XDP_DROP'', ''XDP_PASS'', ''XDP_TX'', ''XDP_REDIRECT'']"

text \<open>A table of the expected shape with generation identifier \<open>i\<close>.\<close>

definition stats_info :: "u32 \<Rightarrow> bpf_map_info" where
  "stats_info i = \<lparr>info_type = BPF_MAP_TYPE_ARRAY, info_id = i, info_name = ''xdp_stats_map'',
                   key_size = 4, value_size = 16, max_entries = 5\<rparr>"

text \<open>
  A live table with identifier 2 at the Pin Path: the \<open>n\<close>-th clock reading is \<open>n\<close>
  seconds, and the counters grow by 1000 packets and 625000 bytes from one lookup to the
  next.
\<close>

definition traffic_env :: stats_env where
  "traffic_env =
    \<lparr>s_verbose = 0, xdp_action_max = 5,
     action2str = (\<lambda>i. if i < 5 then action_names ! i else []),
     s_snprintf_ret = (\<lambda>s. int (length s)),
     clock_gettime = (\<lambda>n. (0, int n, 0)),
     libbpf_num_possible_cpus = 4,
     stack_room = 500000,
     bpf_map_lookup_elem =
       (\<lambda>n fd k. (0, \<lambda>cpu. \<lparr>rx_packets = of_nat (1000 * n), rx_bytes = of_nat (625000 * n)\<rparr>)),
     uninit_value = (\<lambda>n. \<lparr>rx_packets = 0, rx_bytes = 0\<rparr>),
     open_bpf_map_file = (\<lambda>n d m i. (3, stats_info 2))\<rparr>"

text \<open>Nothing is pinned any more: every open fails.\<close>

definition unpinned_env :: stats_env where
  "unpinned_env = traffic_env\<lparr>open_bpf_map_file := (\<lambda>n d m i. (- 2, i))\<rparr>"

text \<open>The first two opens fail, then the new table is there.\<close>

definition reappear_env :: stats_env where
  "reappear_env =
     traffic_env\<lparr>open_bpf_map_file :=
       (\<lambda>n d m i. if n < 2 then (- 2, i) else (3, stats_info 2))\<rparr>"

text \<open>The count of CPUs cannot be read: \<^verbatim>\<open>libbpf_num_possible_cpus\<close> returns an error.\<close>

definition no_cpus_env :: stats_env where
  "no_cpus_env = traffic_env\<lparr>libbpf_num_possible_cpus := - 2\<rparr>"

text \<open>The first open finds a table with four entries, every later one the right table.\<close>

definition mismatch_once_env :: stats_env where
  "mismatch_once_env =
     traffic_env\<lparr>open_bpf_map_file :=
       (\<lambda>n d m i. if n = 0 then (3, (stats_info 2)\<lparr>max_entries := 4\<rparr>) else (3, stats_info 2))\<rparr>"

text \<open>Every open finds a table with four entries.\<close>

definition mismatch_env :: stats_env where
  "mismatch_env =
     traffic_env\<lparr>open_bpf_map_file := (\<lambda>n d m i. (3, (stats_info 2)\<lparr>max_entries := 4\<rparr>))\<rparr>"

text \<open>The reporter before its first call, and its loop variables after polling table 1.\<close>

definition start_state :: pstate where
  "start_state = \<lparr>n_clock = 0, n_lookup = 0, n_open = 0, trace = []\<rparr>"

definition old_poll_state :: poll_state where
  "old_poll_state = \<lparr>ps_map_id = 1, ps_map_type = BPF_MAP_TYPE_ARRAY,
                      ps_record = replicate 5 zero_rec, ps_map_fd = 3, ps_info = stats_info 1\<rparr>"

subsection \<open>Notions for the collection pass and the report\<close>

text \<open>
  No argument of a printed row is the infinity or NaN of a division by zero.  (Every
  quotient that \<^verbatim>\<open>stats_print\<close> computes is an argument of the row it then prints.)
\<close>

definition prints_no_division_by_zero :: "event list \<Rightarrow> bool" where
  "prints_no_division_by_zero tr =
     list_all (\<lambda>e. case e of Printf f args \<Rightarrow> PDbl Inf_or_NaN \<notin> set args | _ \<Rightarrow> True) tr"

text \<open>
  The value that \<^verbatim>\<open>gettime\<close> computes from a clock reading, the event of a reading, and
  the events of a collection pass over the keys \<open>ks\<close>, when the clock works and the map
  type is known: for each key one clock reading, directly followed by the lookup of that
  key (and by the warning when the lookup failed).  \<open>c\<close> and \<open>l\<close> count the readings
  and lookups made before.
\<close>

definition time_of :: "int \<times> int \<times> int \<Rightarrow> u64" where
  "time_of reading =
     (case reading of (res, tv_sec, tv_nsec) \<Rightarrow>
        word_of_int tv_sec * of_nat NANOSEC_PER_SEC + word_of_int tv_nsec)"

definition clock_event :: "int \<times> int \<times> int \<Rightarrow> event" where
  "clock_event reading = (case reading of (res, tv_sec, tv_nsec) \<Rightarrow> Clock_gettime res tv_sec tv_nsec)"

fun pass_events :: "stats_env \<Rightarrow> int \<Rightarrow> nat \<Rightarrow> nat \<Rightarrow> nat list \<Rightarrow> event list" where
  "pass_events E fd c l [] = []"
| "pass_events E fd c l (k # ks) =
     [clock_event (clock_gettime E c),
      Map_lookup fd (of_nat k) (fst (bpf_map_lookup_elem E l fd (of_nat k)))]
     @ (if fst (bpf_map_lookup_elem E l fd (of_nat k)) \<noteq> 0 then [lookup_failed_msg (of_nat k)] else [])
     @ pass_events E fd (c + 1) (l + 1) ks"

text \<open>
  What a pass leaves in the records when every lookup succeeds.  The counters after the
  \<open>n\<close>-th lookup, of key \<open>k\<close>, are the value read for a plain array and the sums over
  the CPUs for a per-CPU array; record \<open>k\<close> of a pass that starts after \<open>c\<close> clock
  readings and \<open>l\<close> lookups holds the reading \<open>c + k\<close> and the counters of lookup
  \<open>l + k\<close>.  Nothing in such a snapshot comes from what the records held before.
\<close>

definition lookup_total :: "stats_env \<Rightarrow> u32 \<Rightarrow> nat \<Rightarrow> int \<Rightarrow> u32 \<Rightarrow> datarec" where
  "lookup_total E map_type n fd k =
     (let vals = snd (bpf_map_lookup_elem E n fd k) in
      if map_type = BPF_MAP_TYPE_ARRAY
      then \<lparr>rx_packets = rx_packets (vals 0), rx_bytes = rx_bytes (vals 0)\<rparr>
      else \<lparr>rx_packets = sum_list (map (\<lambda>i. rx_packets (vals i)) [0..<nr_cpus E]),
            rx_bytes = sum_list (map (\<lambda>i. rx_bytes (vals i)) [0..<nr_cpus E])\<rparr>)"

definition fresh_record :: "stats_env \<Rightarrow> u32 \<Rightarrow> int \<Rightarrow> nat \<Rightarrow> nat \<Rightarrow> nat \<Rightarrow> rec_t" where
  "fresh_record E map_type fd c l k =
     \<lparr>timestamp = time_of (clock_gettime E (c + k)),
      total = lookup_total E map_type (l + k) fd (of_nat k)\<rparr>"

definition fresh_snapshot :: "stats_env \<Rightarrow> u32 \<Rightarrow> int \<Rightarrow> nat \<Rightarrow> nat \<Rightarrow> stats_record" where
  "fresh_snapshot E map_type fd c l = map (fresh_record E map_type fd c l) [0..<xdp_action_max E]"

subsection \<open>Example data of the reporter\<close>

text \<open>Two snapshots whose first records lie two seconds apart and whose other records
  carry equal timestamps.\<close>

definition sample_cur :: stats_record where
  "sample_cur = (replicate 5 zero_rec)
     [0 := \<lparr>timestamp = 2000000000, total = \<lparr>rx_packets = 1100, rx_bytes = 250000\<rparr>\<rparr>]"

definition sample_prev :: stats_record where
  "sample_prev = (replicate 5 zero_rec)
     [0 := \<lparr>timestamp = 0, total = \<lparr>rx_packets = 100, rx_bytes = 0\<rparr>\<rparr>]"

text \<open>
  The lookup of key 1 fails; the local \<^verbatim>\<open>value\<close> of \<^verbatim>\<open>map_collect\<close> holds the stack
  content 57005 and 48879; every record held 4000 packets and 256000 bytes before.
\<close>

definition lookup_fail_env :: stats_env where
  "lookup_fail_env =
     traffic_env\<lparr>bpf_map_lookup_elem :=
                   (\<lambda>n fd k. if k = 1 then (- 1, \<lambda>cpu. \<lparr>rx_packets = 0, rx_bytes = 0\<rparr>)
                             else (0, \<lambda>cpu. \<lparr>rx_packets = 4096, rx_bytes = 262144\<rparr>)),
                 uninit_value := (\<lambda>n. \<lparr>rx_packets = 57005, rx_bytes = 48879\<rparr>)\<rparr>"

definition seen_recs :: stats_record where
  "seen_recs = replicate 5 \<lparr>timestamp = 0, total = \<lparr>rx_packets = 4000, rx_bytes = 256000\<rparr>\<rparr>"

text \<open>The loop variables after polling table 1, with those counters in the records.\<close>

definition seen_poll_state :: poll_state where
  "seen_poll_state = \<lparr>ps_map_id = 1, ps_map_type = BPF_MAP_TYPE_ARRAY,
                       ps_record = seen_recs, ps_map_fd = 3, ps_info = stats_info 1\<rparr>"

text \<open>
  What one iteration of the poll loop does in \<open>traffic_env\<close> after polling table 1: the
  baseline and the current snapshot, the calls, and the report.
\<close>

definition baseline5 :: stats_record where
  "baseline5 =
     [\<lparr>timestamp = 0, total = \<lparr>rx_packets = 0, rx_bytes = 0\<rparr>\<rparr>,
      \<lparr>timestamp = 1000000000, total = \<lparr>rx_packets = 1000, rx_bytes = 625000\<rparr>\<rparr>,
      \<lparr>timestamp = 2000000000, total = \<lparr>rx_packets = 2000, rx_bytes = 1250000\<rparr>\<rparr>,
      \<lparr>timestamp = 3000000000, total = \<lparr>rx_packets = 3000, rx_bytes = 1875000\<rparr>\<rparr>,
      \<lparr>timestamp = 4000000000, total = \<lparr>rx_packets = 4000, rx_bytes = 2500000\<rparr>\<rparr>]"

definition current5 :: stats_record where
  "current5 =
     [\<lparr>timestamp = 5000000000, total = \<lparr>rx_packets = 5000, rx_bytes = 3125000\<rparr>\<rparr>,
      \<lparr>timestamp = 6000000000, total = \<lparr>rx_packets = 6000, rx_bytes = 3750000\<rparr>\<rparr>,
      \<lparr>timestamp = 7000000000, total = \<lparr>rx_packets = 7000, rx_bytes = 4375000\<rparr>\<rparr>,
      \<lparr>timestamp = 8000000000, total = \<lparr>rx_packets = 8000, rx_bytes = 5000000\<rparr>\<rparr>,
      \<lparr>timestamp = 9000000000, total = \<lparr>rx_packets = 9000, rx_bytes = 5625000\<rparr>\<rparr>]"

definition reload_events :: "event list" where
  "reload_events =
     [Close 3,
      Open_map_file ''/sys/fs/bpf/veth0'' ''xdp_stats_map'' 3,
      Eprintf '' - ERR: map reloaded\<newline>'' [],
      Clock_gettime 0 0 0, Map_lookup 3 0 0,
      Clock_gettime 0 1 0, Map_lookup 3 1 0,
      Clock_gettime 0 2 0, Map_lookup 3 2 0,
      Clock_gettime 0 3 0, Map_lookup 3 3 0,
      Clock_gettime 0 4 0, Map_lookup 3 4 0,
      Usleep 250000,
      Clock_gettime 0 5 0, Map_lookup 3 0 0,
      Clock_gettime 0 6 0, Map_lookup 3 1 0,
      Clock_gettime 0 7 0, Map_lookup 3 2 0,
      Clock_gettime 0 8 0, Map_lookup 3 3 0,
      Clock_gettime 0 9 0, Map_lookup 3 4 0]"

definition reload_report :: "event list" where
  "reload_report =
     [Printf ''\<newline>'' [],
      Printf head_fmt [PStr ''XDP-action'', PStr ''packets'', PStr ''packet rate'',
                       PStr ''Bytes'', PStr ''Bit rate'', PStr ''Time period''],
      Printf head_fmt [PStr ''------------'', PStr ''----------------'',
                       PStr ''----------------'', PStr ''------------------'',
                       PStr ''----------------'', PStr ''---------------''],
      Printf row_fmt [PStr ''XDP_ABORTED'', PU64 5000, PDbl (Finite 1000), PU64 3125,
                      PDbl (Finite 5), PDbl (Finite 5)],
      Printf row_fmt [PStr ''XDP_DROP'', PU64 6000, PDbl (Finite 1000), PU64 3750,
                      PDbl (Finite 5), PDbl (Finite 5)],
      Printf row_fmt [PStr ''XDP_PASS'', PU64 7000, PDbl (Finite 1000), PU64 4375,
                      PDbl (Finite 5), PDbl (Finite 5)],
      Printf row_fmt [PStr ''XDP_TX'', PU64 8000, PDbl (Finite 1000), PU64 5000,
                      PDbl (Finite 5), PDbl (Finite 5)],
      Printf row_fmt [PStr ''XDP_REDIRECT'', PU64 9000, PDbl (Finite 1000), PU64 5625,
                      PDbl (Finite 5), PDbl (Finite 5)],
      Printf ''\<newline>'' []]"


section \<open>Properties of the loader\<close>

lemmas loader_example_defs =
  fresh_env_def swap_fail_env_def pin_fail_env_def live_env_def veth_obj_def veth_prog_def veth_cfg_def
  pin_basedir_def map_name_def PATH_MAX_def pin_dir_of_def pin_path_of_def

lemmas trace_pred_defs =
  unpin_called_def pinned_by_this_run_def table_reused_def pin_failure_reported_def

lemma trace_preds_append [simp]:
  "pinned_by_this_run (a @ b) = (pinned_by_this_run a \<or> pinned_by_this_run b)"
  "table_reused (a @ b) = (table_reused a \<or> table_reused b)"
  "pin_failure_reported (a @ b) = (pin_failure_reported a \<or> pin_failure_reported b)"
  by (simp_all add: trace_pred_defs)

lemma trace_preds_vprintf [simp]:
  "\<not> pinned_by_this_run (vprintf E f a)"
  "\<not> table_reused (vprintf E f a)"
  "\<not> unpin_called (vprintf E f a)"
  by (simp_all add: trace_pred_defs vprintf_def)

text \<open>What the events of \<^verbatim>\<open>reuse_pinned_map\<close> and of \<^verbatim>\<open>pin_maps_in_bpf_object\<close> say.\<close>

lemma reuse_pinned_map_trace:
  "\<not> pinned_by_this_run (snd (reuse_pinned_map E obj dev))
   \<and> \<not> pin_failure_reported (snd (reuse_pinned_map E obj dev))
   \<and> Prog_close \<notin> set (snd (reuse_pinned_map E obj dev))
   \<and> (table_reused (snd (reuse_pinned_map E obj dev)) \<longleftrightarrow> fst (reuse_pinned_map E obj dev) = 1)
   \<and> fst (reuse_pinned_map E obj dev) \<in> {- 1, 0, 1}"
  by (simp add: reuse_pinned_map_def c_snprintf_def Let_def vprintf_def trace_pred_defs
      split: option.splits)

lemma pin_maps_trace:
  "\<not> table_reused (snd (pin_maps_in_bpf_object E obj dev))
   \<and> \<not> pin_failure_reported (snd (pin_maps_in_bpf_object E obj dev))
   \<and> Prog_close \<notin> set (snd (pin_maps_in_bpf_object E obj dev))
   \<and> (pinned_by_this_run (snd (pin_maps_in_bpf_object E obj dev))
        \<longleftrightarrow> fst (pin_maps_in_bpf_object E obj dev) = 0)"
  by (simp add: pin_maps_in_bpf_object_def c_snprintf_def Let_def vprintf_def trace_pred_defs
      EXIT_FAIL_BPF_def EXIT_FAIL_OPTION_def)

text \<open>
  C9.  For every device name, when no object exists at the computed Pin Path (and the two
  path texts could be built), \<^verbatim>\<open>pin_maps_in_bpf_object\<close> does not call the unpin primitive
  at all, so the preliminary unpin step cannot fail; the first call it makes is the one
  that publishes the tables, and its result alone decides the return value.
\<close>

theorem pin_without_previous_object:
  assumes "0 \<le> snprintf_ret E (pin_basedir @ ''/'' @ dev)"
      and "0 \<le> snprintf_ret E (pin_basedir @ ''/'' @ dev @ ''/'' @ map_name)"
      and "pin_path_of dev \<notin> fs E"
  shows "pin_maps_in_bpf_object E obj dev =
           (let err = bpf_object__pin_maps E (pin_dir_of dev) in
            (if err \<noteq> 0 then EXIT_FAIL_BPF else 0,
             vprintf E '' - Pinning maps in %s/\<newline>'' [PStr (pin_dir_of dev)]
               @ [Pin_maps (pin_dir_of dev) err]
               @ (if err \<noteq> 0 then [] else [Printf ''Leaving pin_maps_in_bpf_object...\<newline>'' []])))
         \<and> \<not> unpin_called (snd (pin_maps_in_bpf_object E obj dev))"
proof -
  have eq: "pin_maps_in_bpf_object E obj dev =
           (let err = bpf_object__pin_maps E (pin_dir_of dev) in
            (if err \<noteq> 0 then EXIT_FAIL_BPF else 0,
             vprintf E '' - Pinning maps in %s/\<newline>'' [PStr (pin_dir_of dev)]
               @ [Pin_maps (pin_dir_of dev) err]
               @ (if err \<noteq> 0 then [] else [Printf ''Leaving pin_maps_in_bpf_object...\<newline>'' []])))"
    using assms
    by (simp add: pin_maps_in_bpf_object_def c_snprintf_def access_F_OK_def pin_dir_of_def
        pin_path_of_def Let_def)
  show ?thesis
    unfolding eq by (simp add: Let_def unpin_called_def vprintf_def)
qed

theorem pin_without_previous_object_witness:
  "pin_path_of ''veth0'' \<notin> fs fresh_env
   \<and> pin_maps_in_bpf_object fresh_env veth_obj ''veth0'' =
       (0, [Printf '' - Pinning maps in %s/\<newline>'' [PStr ''/sys/fs/bpf/veth0''],
            Pin_maps ''/sys/fs/bpf/veth0'' 0,
            Printf ''Leaving pin_maps_in_bpf_object...\<newline>'' []])"
  using pin_without_previous_object [of fresh_env "''veth0''" veth_obj]
  by (simp add: loader_example_defs vprintf_def)

text \<open>
  C3, as the claim states it, fails: with the pinned table present and opened and the
  table name declared by the program, a failure of the descriptor swap makes
  \<^verbatim>\<open>reuse_pinned_map\<close> return -1, and the attach sequence returns NULL.
\<close>

theorem reuse_fatal_with_name_found:
  "bpf_object__find_map_by_name veth_obj map_name = Some ''xdp_stats_map''
   \<and> fst (reuse_pinned_map swap_fail_env veth_obj ''veth0'') = - 1
   \<and> fst (load_bpf_and_xdp_attach_with_reuse swap_fail_env veth_cfg) = None"
  by (simp add: reuse_pinned_map_def c_snprintf_def access_F_OK_def loader_example_defs
      bpf_object__find_map_by_name_def vprintf_def load_bpf_and_xdp_attach_with_reuse_def)

text \<open>
  C3, amended.  \<^verbatim>\<open>reuse_pinned_map\<close> returns the fatal result -1 exactly when the path
  text cannot be built, or the pinned object exists and opens and then either the table
  name is not among the program's declared tables or the swap of the descriptor fails.
  An absent Pin Path and a failed open give the result 0 (no reuse).
\<close>

theorem reuse_pinned_map_fatal_iff:
  "(fst (reuse_pinned_map E obj dev) = - 1 \<longleftrightarrow>
      snprintf_ret E (pin_basedir @ ''/'' @ dev @ ''/'' @ map_name) < 0
      \<or> (pin_path_of dev \<in> fs E \<and> 0 \<le> bpf_obj_get E (pin_path_of dev)
          \<and> (map_name \<notin> set (obj_maps obj)
              \<or> bpf_map__reuse_fd E map_name (bpf_obj_get E (pin_path_of dev)) \<noteq> 0)))
   \<and> (0 \<le> snprintf_ret E (pin_basedir @ ''/'' @ dev @ ''/'' @ map_name)
        \<and> (pin_path_of dev \<notin> fs E \<or> bpf_obj_get E (pin_path_of dev) < 0)
       \<longrightarrow> fst (reuse_pinned_map E obj dev) = 0)"
  by (auto simp add: reuse_pinned_map_def c_snprintf_def access_F_OK_def pin_path_of_def
      bpf_object__find_map_by_name_def Let_def split: option.splits if_splits)

theorem reuse_pinned_map_fatal_iff_witness:
  "pin_path_of ''veth0'' \<notin> fs fresh_env
   \<and> fst (reuse_pinned_map fresh_env veth_obj ''veth0'') = 0"
  using reuse_pinned_map_fatal_iff [of fresh_env veth_obj "''veth0''"]
  by (simp add: loader_example_defs)

text \<open>
  C4.  When \<^verbatim>\<open>load_bpf_and_xdp_attach_with_reuse\<close> returns a program and no failure of
  the pin step was reported, exactly one of the two holds for the run: it published the
  tables itself, or it reused the table pinned before.
\<close>

theorem pinned_xor_reused:
  assumes "load_bpf_and_xdp_attach_with_reuse E cfg = (Some p, tr)"
      and "\<not> pin_failure_reported tr"
  shows "pinned_by_this_run tr \<noteq> table_reused tr"
proof -
  define obj where "obj = bpf_obj (snd (xdp_program__create E (filename cfg) (progname cfg)))"
  obtain err1 t1 where r: "reuse_pinned_map E obj (ifname cfg) = (err1, t1)"
    by (cases "reuse_pinned_map E obj (ifname cfg)")
  obtain err3 t3 where q: "pin_maps_in_bpf_object E obj (ifname cfg) = (err3, t3)"
    by (cases "pin_maps_in_bpf_object E obj (ifname cfg)")
  from reuse_pinned_map_trace [of E obj "ifname cfg"] r
  have R: "\<not> pinned_by_this_run t1" "\<not> pin_failure_reported t1" "table_reused t1 \<longleftrightarrow> err1 = 1"
    "err1 = - 1 \<or> err1 = 0 \<or> err1 = 1"
    by simp_all
  from pin_maps_trace [of E obj "ifname cfg"] q
  have Q: "\<not> table_reused t3" "\<not> pin_failure_reported t3" "pinned_by_this_run t3 \<longleftrightarrow> err3 = 0"
    by simp_all
  show ?thesis
    using assms R Q r q
    by (auto simp add: load_bpf_and_xdp_attach_with_reuse_def obj_def Let_def split_beta
        vprintf_def trace_pred_defs load_error_msg_def
        split: if_splits)
qed

theorem pinned_xor_reused_witness:
  "fst (load_bpf_and_xdp_attach_with_reuse fresh_env veth_cfg) = Some veth_prog
   \<and> \<not> pin_failure_reported (snd (load_bpf_and_xdp_attach_with_reuse fresh_env veth_cfg))
   \<and> pinned_by_this_run (snd (load_bpf_and_xdp_attach_with_reuse fresh_env veth_cfg))
   \<and> \<not> table_reused (snd (load_bpf_and_xdp_attach_with_reuse fresh_env veth_cfg))"
proof -
  have run: "load_bpf_and_xdp_attach_with_reuse fresh_env veth_cfg =
      (Some veth_prog,
       [Prog_create ''xdp_prog_kern.o'' ''xdp_stats1_func'' 0,
        Printf '' - No existing pinned map found\<newline>'' [],
        Prog_attach 4 0 0,
        Printf '' - Pinning maps in %s/\<newline>'' [PStr ''/sys/fs/bpf/veth0''],
        Pin_maps ''/sys/fs/bpf/veth0'' 0,
        Printf ''Leaving pin_maps_in_bpf_object...\<newline>'' [],
        Printf ''Leaving load_bpf_and_xdp_attach_with_reuse...\<newline>'' []])"
    by (simp add: load_bpf_and_xdp_attach_with_reuse_def reuse_pinned_map_def
        pin_maps_in_bpf_object_def c_snprintf_def access_F_OK_def vprintf_def
        loader_example_defs)
  have nf: "\<not> pin_failure_reported (snd (load_bpf_and_xdp_attach_with_reuse fresh_env veth_cfg))"
    unfolding run by (simp add: pin_failure_reported_def)
  from pinned_xor_reused [OF run] nf show ?thesis
    unfolding run by (simp add: trace_pred_defs)
qed

text \<open>
  The other outcome: with the table of an earlier run still pinned and alive, the run
  reuses it and makes no pin or unpin call.
\<close>

lemma second_run_reuses:
  "load_bpf_and_xdp_attach_with_reuse live_env veth_cfg =
     (Some veth_prog,
      [Prog_create ''xdp_prog_kern.o'' ''xdp_stats1_func'' 0,
       Obj_get ''/sys/fs/bpf/veth0/xdp_stats_map'' 7,
       Printf '' - Found existing pinned map at %s\<newline>'' [PStr ''/sys/fs/bpf/veth0/xdp_stats_map''],
       Reuse_fd ''xdp_stats_map'' 7 0,
       Printf '' - Successfully reused pinned map\<newline>'' [],
       Printf ''Leaving reuse_pinned_map\<newline>'' [],
       Prog_attach 4 0 0,
       Printf '' - Skipped map pinning (reused existing)\<newline>'' [],
       Printf ''Leaving load_bpf_and_xdp_attach_with_reuse...\<newline>'' []])"
  by (simp add: load_bpf_and_xdp_attach_with_reuse_def reuse_pinned_map_def
      c_snprintf_def access_F_OK_def vprintf_def bpf_object__find_map_by_name_def
      loader_example_defs)

text \<open>
  C7.  If the program is created, the table is not reused, the attach succeeds and the pin
  step then fails, \<^verbatim>\<open>load_bpf_and_xdp_attach_with_reuse\<close> reports the failure and still
  returns the program: after the pin step it only prints, it never closes the program,
  and \<^verbatim>\<open>main\<close> ends with the success code.
\<close>

theorem pin_failure_not_fatal:
  assumes "xdp_program__create E (filename cfg) (progname cfg) = (0, program)"
      and "fst (reuse_pinned_map E (bpf_obj program) (ifname cfg)) = 0"
      and "xdp_program__attach E program (ifindex cfg) (attach_mode cfg) = 0"
      and "fst (pin_maps_in_bpf_object E (bpf_obj program) (ifname cfg)) \<noteq> 0"
      and "ifindex cfg \<noteq> - 1"
  shows "load_bpf_and_xdp_attach_with_reuse E cfg =
           (Some program,
            [Prog_create (filename cfg) (progname cfg) 0]
              @ snd (reuse_pinned_map E (bpf_obj program) (ifname cfg))
              @ [Prog_attach (ifindex cfg) (attach_mode cfg) 0]
              @ snd (pin_maps_in_bpf_object E (bpf_obj program) (ifname cfg))
              @ [Eprintf ''ERR: pinning maps\<newline>'' [],
                 Printf ''Leaving load_bpf_and_xdp_attach_with_reuse...\<newline>'' []])
         \<and> Prog_close \<notin> set (snd (load_bpf_and_xdp_attach_with_reuse E cfg))
         \<and> fst (xdp_loader_main E cfg) = EXIT_OK"
proof -
  have eq: "load_bpf_and_xdp_attach_with_reuse E cfg =
           (Some program,
            [Prog_create (filename cfg) (progname cfg) 0]
              @ snd (reuse_pinned_map E (bpf_obj program) (ifname cfg))
              @ [Prog_attach (ifindex cfg) (attach_mode cfg) 0]
              @ snd (pin_maps_in_bpf_object E (bpf_obj program) (ifname cfg))
              @ [Eprintf ''ERR: pinning maps\<newline>'' [],
                 Printf ''Leaving load_bpf_and_xdp_attach_with_reuse...\<newline>'' []])"
    using assms
    by (simp add: load_bpf_and_xdp_attach_with_reuse_def Let_def split_beta)
  have nc: "Prog_close \<notin> set (snd (load_bpf_and_xdp_attach_with_reuse E cfg))"
    unfolding eq
    using reuse_pinned_map_trace [of E "bpf_obj program" "ifname cfg"]
      pin_maps_trace [of E "bpf_obj program" "ifname cfg"]
    by simp
  have "fst (xdp_loader_main E cfg) = EXIT_OK"
    using assms(5) by (simp add: xdp_loader_main_def eq)
  with eq nc show ?thesis by simp
qed

theorem pin_failure_not_fatal_witness:
  "fst (pin_maps_in_bpf_object pin_fail_env veth_obj ''veth0'') = EXIT_FAIL_BPF
   \<and> load_bpf_and_xdp_attach_with_reuse pin_fail_env veth_cfg =
       (Some veth_prog,
        [Prog_create ''xdp_prog_kern.o'' ''xdp_stats1_func'' 0,
         Printf '' - No existing pinned map found\<newline>'' [],
         Prog_attach 4 0 0,
         Printf '' - Pinning maps in %s/\<newline>'' [PStr ''/sys/fs/bpf/veth0''],
         Pin_maps ''/sys/fs/bpf/veth0'' (- 13),
         Eprintf ''ERR: pinning maps\<newline>'' [],
         Printf ''Leaving load_bpf_and_xdp_attach_with_reuse...\<newline>'' []])
   \<and> fst (xdp_loader_main pin_fail_env veth_cfg) = EXIT_OK"
proof -
  have r: "reuse_pinned_map pin_fail_env veth_obj ''veth0'' =
      (0, [Printf '' - No existing pinned map found\<newline>'' []])"
    by (simp add: reuse_pinned_map_def c_snprintf_def access_F_OK_def vprintf_def
        loader_example_defs)
  have q: "pin_maps_in_bpf_object pin_fail_env veth_obj ''veth0'' =
      (EXIT_FAIL_BPF, [Printf '' - Pinning maps in %s/\<newline>'' [PStr ''/sys/fs/bpf/veth0''],
                       Pin_maps ''/sys/fs/bpf/veth0'' (- 13)])"
    by (simp add: pin_maps_in_bpf_object_def c_snprintf_def access_F_OK_def vprintf_def
        loader_example_defs)
  have c: "xdp_program__create pin_fail_env (filename veth_cfg) (progname veth_cfg) = (0, veth_prog)"
    by (simp add: pin_fail_env_def)
  have o: "bpf_obj veth_prog = veth_obj" "ifname veth_cfg = ''veth0''" "ifindex veth_cfg = 4"
    "attach_mode veth_cfg = 0" "filename veth_cfg = ''xdp_prog_kern.o''"
    "progname veth_cfg = ''xdp_stats1_func''"
    by (simp_all add: veth_prog_def veth_cfg_def)
  have a: "xdp_program__attach pin_fail_env veth_prog (ifindex veth_cfg) (attach_mode veth_cfg) = 0"
    by (simp add: pin_fail_env_def)
  from pin_failure_not_fatal [of pin_fail_env veth_cfg veth_prog, OF c _ a]
  show ?thesis
    by (simp add: o r q EXIT_FAIL_BPF_def)
qed

section \<open>Properties of the reporter\<close>

lemmas stats_example_defs =
  traffic_env_def unpinned_env_def mismatch_once_env_def mismatch_env_def reappear_env_def
  no_cpus_env_def start_state_def old_poll_state_def
  stats_info_def expected_shape_def zero_info_def zero_rec_def action_names_def
  BPF_MAP_TYPE_ARRAY_def BPF_MAP_TYPE_PERCPU_ARRAY_def


subsection \<open>The re-open loop\<close>

lemma reopen_loop_retry:
  assumes "fst (fst (open_check_bpf_map_file E pin_dir mname map_expect info s)) \<noteq> EXIT_OK"
  shows "reopen_loop E pin_dir mname map_expect info s =
         reopen_loop E pin_dir mname map_expect
           (snd (snd (fst (open_check_bpf_map_file E pin_dir mname map_expect info s))))
           (emit [Eprintf ''ERR: map still reloading\<newline>'' [], Usleep 250000]
              (snd (open_check_bpf_map_file E pin_dir mname map_expect info s)))"
  using assms
  by (subst reopen_loop.simps) (simp add: split_beta)

lemma reopen_loop_done:
  assumes "fst (fst (open_check_bpf_map_file E pin_dir mname map_expect info s)) = EXIT_OK"
  shows "reopen_loop E pin_dir mname map_expect info s =
         Some (open_check_bpf_map_file E pin_dir mname map_expect info s)"
  using assms
  by (subst reopen_loop.simps) (simp add: split_beta EXIT_OK_def EXIT_FAIL_BPF_def prod_eq_iff)

lemma n_open_open_check:
  "n_open (snd (open_check_bpf_map_file E pin_dir mname map_expect info s)) = n_open s + 1"
  by (simp add: open_check_bpf_map_file_def emit_def Let_def split_beta)

lemma n_open_emit [simp]: "n_open (emit es s) = n_open s"
  by (simp add: emit_def)

lemma reopen_loop_Some:
  assumes "reopen_loop E pin_dir mname map_expect info s = Some r"
  shows "\<exists>info' s'. n_open s \<le> n_open s'
           \<and> open_check_bpf_map_file E pin_dir mname map_expect info' s' = r
           \<and> fst (fst r) = EXIT_OK"
  using assms
proof (induction rule: reopen_loop.raw_induct [rotated 1, consumes 1])
  case (1 loop E pin_dir mname map_expect info s r)
  show ?case
  proof (cases "fst (fst (open_check_bpf_map_file E pin_dir mname map_expect info s)) = EXIT_OK")
    case True
    with 1(2) have "open_check_bpf_map_file E pin_dir mname map_expect info s = r"
      by (auto simp add: split_beta EXIT_OK_def EXIT_FAIL_BPF_def prod_eq_iff)
    with True show ?thesis by auto
  next
    case False
    with 1(2) have "loop E pin_dir mname map_expect
           (snd (snd (fst (open_check_bpf_map_file E pin_dir mname map_expect info s))))
           (emit [Eprintf ''ERR: map still reloading\<newline>'' [], Usleep 250000]
              (snd (open_check_bpf_map_file E pin_dir mname map_expect info s))) = Some r"
      by (simp add: split_beta)
    from 1(1) [OF this] obtain info' s' where
      "n_open s + 1 \<le> n_open s'"
      "open_check_bpf_map_file E pin_dir mname map_expect info' s' = r" "fst (fst r) = EXIT_OK"
      by (auto simp add: n_open_open_check)
    then show ?thesis by (intro exI [of _ info'] exI [of _ s']) simp
  qed
qed

lemma reopen_loop_None:
  assumes "\<forall>info' s'. n_open s \<le> n_open s' \<longrightarrow>
             fst (fst (open_check_bpf_map_file E pin_dir mname map_expect info' s')) \<noteq> EXIT_OK"
  shows "reopen_loop E pin_dir mname map_expect info s = None"
proof (cases "reopen_loop E pin_dir mname map_expect info s")
  case None then show ?thesis .
next
  case (Some r)
  from reopen_loop_Some [OF Some] assms show ?thesis by blast
qed

lemma poll_loop_None:
  assumes "poll_iteration E pin_dir mname map_expect interval ls s = None"
  shows "poll_loop E pin_dir mname map_expect interval ls s = None"
  using assms by (subst poll_loop.simps) simp



text \<open>
  The only way out of the poll loop is the \<^verbatim>\<open>exit\<close> of \<^verbatim>\<open>gettime\<close> after a failed clock
  reading; no result of an open leads to it.
\<close>

lemma gettime_exit:
  assumes "gettime E s = (Inl c, s')"
  shows "c = Exit EXIT_FAIL \<and> fst (clock_gettime E (n_clock s)) < 0"
  using assms by (simp add: gettime_def split_beta Let_def split: if_splits)

lemma map_collect_exit:
  assumes "map_collect E fd map_type k r s = (Inl c, s')"
  shows "(c = Exit EXIT_FAIL \<and> (\<exists>n. fst (clock_gettime E n) < 0))
         \<or> (c = Killed_SIGSEGV \<and> \<not> values_fit E)"
proof (cases "gettime E s")
  case (Pair x s1)
  show ?thesis
  proof (cases x)
    case (Inl c')
    with Pair assms have "c' = c" by (simp add: map_collect_def)
    with Pair Inl gettime_exit [of E s c s1] show ?thesis by auto
  next
    case (Inr t)
    with Pair assms show ?thesis
      by (auto simp add: map_collect_def map_get_value_percpu_array_def split_beta Let_def
          split: if_splits)
  qed
qed

lemma stats_collect_loop_exit:
  assumes "stats_collect_loop E fd map_type ks recs s = (Inl c, s')"
  shows "(c = Exit EXIT_FAIL \<and> (\<exists>n. fst (clock_gettime E n) < 0))
         \<or> (c = Killed_SIGSEGV \<and> \<not> values_fit E)"
  using assms
proof (induction ks arbitrary: recs s)
  case Nil
  then show ?case by simp
next
  case (Cons k ks)
  show ?case
  proof (cases "map_collect E fd map_type (of_nat k) (recs ! k) s")
    case (Pair x s1)
    show ?thesis
    proof (cases x)
      case (Inl c')
      with Pair Cons.prems have "c' = c" by simp
      with Pair Inl map_collect_exit [of E fd map_type "of_nat k" "recs ! k" s c s1]
      show ?thesis by simp
    next
      case (Inr y)
      with Pair Cons.prems
      have "stats_collect_loop E fd map_type ks (recs[k := snd y]) s1 = (Inl c, s')"
        by (simp add: split_beta)
      then show ?thesis by (rule Cons.IH)
    qed
  qed
qed

lemma stats_collect_exit:
  assumes "stats_collect E fd map_type recs s = (Inl c, s')"
  shows "(c = Exit EXIT_FAIL \<and> (\<exists>n. fst (clock_gettime E n) < 0))
         \<or> (c = Killed_SIGSEGV \<and> \<not> values_fit E)"
  using assms unfolding stats_collect_def by (rule stats_collect_loop_exit)

lemma poll_iteration_exit:
  assumes "poll_iteration E pin_dir mname map_expect interval ls s = Some (Inl c, s')"
  shows "(c = Exit EXIT_FAIL \<and> (\<exists>n. fst (clock_gettime E n) < 0))
         \<or> (c = Killed_SIGSEGV \<and> \<not> values_fit E)"
proof -
  from assms obtain err fd info s2 where
    r: "reopen_loop E pin_dir mname map_expect (ps_info ls) (emit [Close (ps_map_fd ls)] s) =
          Some ((err, fd, info), s2)"
    by (auto simp add: poll_iteration_def split: option.splits)
  show ?thesis
  proof (cases "ps_map_id ls \<noteq> sint (info_id info)")
    case True
    show ?thesis
    proof (cases "stats_collect E fd (info_type info) (ps_record ls)
                    (emit [Eprintf '' - ERR: map reloaded\<newline>'' []] s2)")
      case (Pair x s4)
      show ?thesis
      proof (cases x)
        case (Inl c')
        with Pair True r assms have "c' = c" by (simp add: poll_iteration_def)
        with Pair Inl stats_collect_exit show ?thesis by blast
      next
        case (Inr b)
        show ?thesis
        proof (cases "stats_collect E fd (info_type info) b (emit [Usleep 250000] s4)")
          case (Pair y s6)
          with \<open>stats_collect E fd (info_type info) (ps_record ls)
                    (emit [Eprintf '' - ERR: map reloaded\<newline>'' []] s2) = (x, s4)\<close>
            Inr True r assms
          obtain c' where "y = Inl c'" "c' = c"
            by (cases y) (simp_all add: poll_iteration_def)
          with Pair stats_collect_exit show ?thesis by blast
        qed
      qed
    qed
  next
    case False
    show ?thesis
    proof (cases "stats_collect E fd (ps_map_type ls) (ps_record ls) s2")
      case (Pair y s6)
      with False r assms obtain c' where "y = Inl c'" "c' = c"
        by (cases y) (simp_all add: poll_iteration_def)
      with Pair stats_collect_exit show ?thesis by blast
    qed
  qed
qed

lemma poll_loop_exit:
  assumes "poll_loop E pin_dir mname map_expect interval ls s = Some r"
  shows "(fst r = Exit EXIT_FAIL \<and> (\<exists>n. fst (clock_gettime E n) < 0))
         \<or> (fst r = Killed_SIGSEGV \<and> \<not> values_fit E)"
  using assms
proof (induction rule: poll_loop.raw_induct [rotated 1, consumes 1])
  case (1 loop E pin_dir mname map_expect interval ls s r)
  show ?case
  proof (cases "poll_iteration E pin_dir mname map_expect interval ls s")
    case None
    with 1(2) show ?thesis by simp
  next
    case (Some a)
    obtain x s1 where a: "a = (x, s1)" by (cases a)
    show ?thesis
    proof (cases x)
      case (Inl c)
      with Some a 1(2) have "r = (c, s1)" by simp
      with Some a Inl poll_iteration_exit [of E pin_dir mname map_expect interval ls s c s1]
      show ?thesis by simp
    next
      case (Inr ls1)
      with Some a 1(2) have "loop E pin_dir mname map_expect interval ls1 s1 = Some r" by simp
      then show ?thesis by (rule 1(1))
    qed
  qed
qed

lemma poll_loop_runs_forever:
  assumes "\<forall>n. 0 \<le> fst (clock_gettime E n)" and "values_fit E"
  shows "poll_loop E pin_dir mname map_expect interval ls s = None"
proof (cases "poll_loop E pin_dir mname map_expect interval ls s")
  case None then show ?thesis .
next
  case (Some r)
  from poll_loop_exit [OF Some] assms show ?thesis by (auto simp add: not_less [symmetric])
qed

lemma failed_opens_n_open:
  "n_open (snd (failed_opens E pin_dir mname k info s)) = n_open s + k"
  by (induction k) (simp_all add: split_beta Let_def)

lemma failed_opens_trace:
  "trace (snd (failed_opens E pin_dir mname k info s)) =
     trace s
     @ concat (map (\<lambda>j. retry_events pin_dir mname
                            (fst (open_bpf_map_file E (n_open s + j) pin_dir mname
                                    (fst (failed_opens E pin_dir mname j info s)))))
                   [0..<k])"
  by (induction k) (simp_all add: split_beta Let_def emit_def failed_opens_n_open)

lemma open_check_failed_open:
  assumes "fst (open_bpf_map_file E (n_open s) pin_dir mname info) < 0"
  shows "open_check_bpf_map_file E pin_dir mname map_expect info s =
           ((EXIT_FAIL_BPF, open_bpf_map_file E (n_open s) pin_dir mname info),
            emit [Open_map_file pin_dir mname (fst (open_bpf_map_file E (n_open s) pin_dir mname info)),
                  Eprintf ''ERR: open_bpf_map_file failed for %s/%s\<newline>''
                    [PStr pin_dir, PStr mname]]
              (s\<lparr>n_open := n_open s + 1\<rparr>))"
  using assms
  by (simp add: open_check_bpf_map_file_def split_beta Let_def emit_def)

lemma reopen_loop_failed_open:
  assumes "fst (open_bpf_map_file E (n_open s) pin_dir mname info) < 0"
  shows "reopen_loop E pin_dir mname map_expect info s =
         reopen_loop E pin_dir mname map_expect
           (snd (open_bpf_map_file E (n_open s) pin_dir mname info))
           (emit (retry_events pin_dir mname (fst (open_bpf_map_file E (n_open s) pin_dir mname info)))
              (s\<lparr>n_open := n_open s + 1\<rparr>))"
proof -
  have "fst (fst (open_check_bpf_map_file E pin_dir mname map_expect info s)) \<noteq> EXIT_OK"
    by (simp add: open_check_failed_open [OF assms] EXIT_OK_def EXIT_FAIL_BPF_def)
  from reopen_loop_retry [OF this] show ?thesis
    by (simp add: open_check_failed_open [OF assms] emit_def retry_events_def)
qed

lemma reopen_loop_failed_opens:
  assumes "\<forall>j<k. \<forall>info'. fst (open_bpf_map_file E (n_open s + j) pin_dir mname info') < 0"
  shows "reopen_loop E pin_dir mname map_expect info s =
         reopen_loop E pin_dir mname map_expect
           (fst (failed_opens E pin_dir mname k info s))
           (snd (failed_opens E pin_dir mname k info s))"
  using assms
proof (induction k)
  case 0
  show ?case by simp
next
  case (Suc k)
  let ?F = "failed_opens E pin_dir mname k info s"
  have "fst (open_bpf_map_file E (n_open (snd ?F)) pin_dir mname (fst ?F)) < 0"
    using Suc.prems by (simp add: failed_opens_n_open)
  from reopen_loop_failed_open [OF this, of map_expect] Suc show ?case
    by (simp add: split_beta Let_def)
qed

text \<open>
  C6.  In the inner loop of \<^verbatim>\<open>stats_poll_map_reload\<close>, an open that fails makes the loop
  log, wait 250 ms and try again from the next attempt.  After \<open>k\<close> such attempts the
  events are those of \<open>k\<close> retries, one after the other; if the attempt that follows
  succeeds, the loop ends with the result of that attempt.  If every attempt from the
  current one on fails, the loop never ends, and neither does the iteration nor the poll
  loop around it: the process does not stop.  Whenever the inner loop does end, its result
  code is \<^verbatim>\<open>EXIT_OK\<close>; and whenever the poll loop ends at all, whatever the opens returned,
  it is by \<^verbatim>\<open>exit(EXIT_FAIL)\<close> after a failed clock reading or by the kill for a per-CPU
  value array that does not fit the stack.
\<close>

theorem open_failure_retried_forever:
  "(fst (open_bpf_map_file E (n_open s) pin_dir mname info) < 0 \<longrightarrow>
      reopen_loop E pin_dir mname map_expect info s =
        reopen_loop E pin_dir mname map_expect
          (snd (open_bpf_map_file E (n_open s) pin_dir mname info))
          (emit [Open_map_file pin_dir mname (fst (open_bpf_map_file E (n_open s) pin_dir mname info)),
                 Eprintf ''ERR: open_bpf_map_file failed for %s/%s\<newline>'' [PStr pin_dir, PStr mname],
                 Eprintf ''ERR: map still reloading\<newline>'' [], Usleep 250000]
             (s\<lparr>n_open := n_open s + 1\<rparr>)))
   \<and> ((\<forall>j<k. \<forall>info'. fst (open_bpf_map_file E (n_open s + j) pin_dir mname info') < 0)
        \<and> fst (fst (open_check_bpf_map_file E pin_dir mname map_expect
                       (fst (failed_opens E pin_dir mname k info s))
                       (snd (failed_opens E pin_dir mname k info s)))) = EXIT_OK
       \<longrightarrow> reopen_loop E pin_dir mname map_expect info s =
             Some (open_check_bpf_map_file E pin_dir mname map_expect
                     (fst (failed_opens E pin_dir mname k info s))
                     (snd (failed_opens E pin_dir mname k info s))))
   \<and> n_open (snd (failed_opens E pin_dir mname k info s)) = n_open s + k
   \<and> trace (snd (failed_opens E pin_dir mname k info s)) =
       trace s
       @ concat (map (\<lambda>j. retry_events pin_dir mname
                              (fst (open_bpf_map_file E (n_open s + j) pin_dir mname
                                      (fst (failed_opens E pin_dir mname j info s)))))
                     [0..<k])
   \<and> ((\<forall>k info'. n_open s \<le> k \<longrightarrow> fst (open_bpf_map_file E k pin_dir mname info') < 0) \<longrightarrow>
         reopen_loop E pin_dir mname map_expect info s = None
         \<and> poll_iteration E pin_dir mname map_expect interval ls s = None
         \<and> poll_loop E pin_dir mname map_expect interval ls s = None)
   \<and> (\<forall>r. reopen_loop E pin_dir mname map_expect info s = Some r \<longrightarrow> fst (fst r) = EXIT_OK)
   \<and> (\<forall>r. poll_loop E pin_dir mname map_expect interval ls s = Some r \<longrightarrow>
          (fst r = Exit EXIT_FAIL \<and> (\<exists>n. fst (clock_gettime E n) < 0))
          \<or> (fst r = Killed_SIGSEGV \<and> \<not> values_fit E))"
proof -
  have step: "fst (open_bpf_map_file E (n_open s) pin_dir mname info) < 0 \<longrightarrow>
      reopen_loop E pin_dir mname map_expect info s =
        reopen_loop E pin_dir mname map_expect
          (snd (open_bpf_map_file E (n_open s) pin_dir mname info))
          (emit [Open_map_file pin_dir mname (fst (open_bpf_map_file E (n_open s) pin_dir mname info)),
                 Eprintf ''ERR: open_bpf_map_file failed for %s/%s\<newline>'' [PStr pin_dir, PStr mname],
                 Eprintf ''ERR: map still reloading\<newline>'' [], Usleep 250000]
             (s\<lparr>n_open := n_open s + 1\<rparr>))"
    using reopen_loop_failed_open [of E s pin_dir mname info map_expect]
    by (simp add: retry_events_def)
  have recover: "(\<forall>j<k. \<forall>info'. fst (open_bpf_map_file E (n_open s + j) pin_dir mname info') < 0)
        \<and> fst (fst (open_check_bpf_map_file E pin_dir mname map_expect
                       (fst (failed_opens E pin_dir mname k info s))
                       (snd (failed_opens E pin_dir mname k info s)))) = EXIT_OK
       \<longrightarrow> reopen_loop E pin_dir mname map_expect info s =
             Some (open_check_bpf_map_file E pin_dir mname map_expect
                     (fst (failed_opens E pin_dir mname k info s))
                     (snd (failed_opens E pin_dir mname k info s)))"
  proof
    assume h: "(\<forall>j<k. \<forall>info'. fst (open_bpf_map_file E (n_open s + j) pin_dir mname info') < 0)
        \<and> fst (fst (open_check_bpf_map_file E pin_dir mname map_expect
                       (fst (failed_opens E pin_dir mname k info s))
                       (snd (failed_opens E pin_dir mname k info s)))) = EXIT_OK"
    then have "reopen_loop E pin_dir mname map_expect info s =
         reopen_loop E pin_dir mname map_expect
           (fst (failed_opens E pin_dir mname k info s))
           (snd (failed_opens E pin_dir mname k info s))"
      by (intro reopen_loop_failed_opens) simp
    also from h have "\<dots> = Some (open_check_bpf_map_file E pin_dir mname map_expect
                     (fst (failed_opens E pin_dir mname k info s))
                     (snd (failed_opens E pin_dir mname k info s)))"
      by (intro reopen_loop_done) simp
    finally show "reopen_loop E pin_dir mname map_expect info s =
             Some (open_check_bpf_map_file E pin_dir mname map_expect
                     (fst (failed_opens E pin_dir mname k info s))
                     (snd (failed_opens E pin_dir mname k info s)))" .
  qed
  have forever: "(\<forall>k info'. n_open s \<le> k \<longrightarrow> fst (open_bpf_map_file E k pin_dir mname info') < 0) \<longrightarrow>
         reopen_loop E pin_dir mname map_expect info s = None
         \<and> poll_iteration E pin_dir mname map_expect interval ls s = None
         \<and> poll_loop E pin_dir mname map_expect interval ls s = None"
  proof (intro impI conjI)
    assume all: "\<forall>k info'. n_open s \<le> k \<longrightarrow> fst (open_bpf_map_file E k pin_dir mname info') < 0"
    have fail: "fst (fst (open_check_bpf_map_file E pin_dir mname map_expect info' s')) \<noteq> EXIT_OK"
      if "n_open s \<le> n_open s'" for info' s'
      using all that
      by (simp add: open_check_bpf_map_file_def split_beta Let_def EXIT_OK_def EXIT_FAIL_BPF_def)
    show "reopen_loop E pin_dir mname map_expect info s = None"
      by (rule reopen_loop_None) (simp add: fail)
    have "reopen_loop E pin_dir mname map_expect (ps_info ls) (emit [Close (ps_map_fd ls)] s) = None"
      by (rule reopen_loop_None) (simp add: fail)
    then show it: "poll_iteration E pin_dir mname map_expect interval ls s = None"
      by (simp add: poll_iteration_def)
    show "poll_loop E pin_dir mname map_expect interval ls s = None"
      by (rule poll_loop_None) (rule it)
  qed
  have ok: "\<forall>r. reopen_loop E pin_dir mname map_expect info s = Some r \<longrightarrow> fst (fst r) = EXIT_OK"
    using reopen_loop_Some by blast
  have stop: "\<forall>r. poll_loop E pin_dir mname map_expect interval ls s = Some r \<longrightarrow>
          (fst r = Exit EXIT_FAIL \<and> (\<exists>n. fst (clock_gettime E n) < 0))
          \<or> (fst r = Killed_SIGSEGV \<and> \<not> values_fit E)"
    using poll_loop_exit by blast
  from step recover forever ok stop failed_opens_n_open [of E pin_dir mname k info s]
    failed_opens_trace [of E pin_dir mname k info s]
  show ?thesis by (intro conjI)
qed

theorem open_failure_retried_forever_witness:
  "fst (open_bpf_map_file unpinned_env 0 ''/sys/fs/bpf/veth0'' ''xdp_stats_map'' (stats_info 1)) < 0
   \<and> reopen_loop unpinned_env ''/sys/fs/bpf/veth0'' ''xdp_stats_map'' (expected_shape unpinned_env)
        (stats_info 1) start_state = None
   \<and> poll_loop unpinned_env ''/sys/fs/bpf/veth0'' ''xdp_stats_map'' (expected_shape unpinned_env)
        2 old_poll_state start_state = None
   \<and> reopen_loop reappear_env ''/sys/fs/bpf/veth0'' ''xdp_stats_map'' (expected_shape reappear_env)
        (stats_info 1) start_state =
      Some ((EXIT_OK, 3, stats_info 2),
            \<lparr>n_clock = 0, n_lookup = 0, n_open = 3,
             trace = [Open_map_file ''/sys/fs/bpf/veth0'' ''xdp_stats_map'' (- 2),
                      Eprintf ''ERR: open_bpf_map_file failed for %s/%s\<newline>''
                        [PStr ''/sys/fs/bpf/veth0'', PStr ''xdp_stats_map''],
                      Eprintf ''ERR: map still reloading\<newline>'' [],
                      Usleep 250000,
                      Open_map_file ''/sys/fs/bpf/veth0'' ''xdp_stats_map'' (- 2),
                      Eprintf ''ERR: open_bpf_map_file failed for %s/%s\<newline>''
                        [PStr ''/sys/fs/bpf/veth0'', PStr ''xdp_stats_map''],
                      Eprintf ''ERR: map still reloading\<newline>'' [],
                      Usleep 250000,
                      Open_map_file ''/sys/fs/bpf/veth0'' ''xdp_stats_map'' 3]\<rparr>)"
proof -
  have h: "\<forall>k info'. n_open start_state \<le> k \<longrightarrow>
      fst (open_bpf_map_file unpinned_env k ''/sys/fs/bpf/veth0'' ''xdp_stats_map'' info') < 0"
    by (simp add: unpinned_env_def traffic_env_def)
  have neg: "fst (open_bpf_map_file unpinned_env 0 ''/sys/fs/bpf/veth0'' ''xdp_stats_map'' (stats_info 1)) < 0"
    by (simp add: unpinned_env_def traffic_env_def)
  note never = open_failure_retried_forever [of unpinned_env start_state "''/sys/fs/bpf/veth0''"
      "''xdp_stats_map''" "stats_info 1" "expected_shape unpinned_env" 0 2 old_poll_state,
      THEN conjunct2, THEN conjunct2, THEN conjunct2, THEN conjunct2, THEN conjunct1, THEN mp, OF h]
  let ?F = "failed_opens reappear_env ''/sys/fs/bpf/veth0'' ''xdp_stats_map'' (Suc (Suc 0))
              (stats_info 1) start_state"
  have F: "?F = (stats_info 1,
        \<lparr>n_clock = 0, n_lookup = 0, n_open = 2,
         trace = retry_events ''/sys/fs/bpf/veth0'' ''xdp_stats_map'' (- 2)
                 @ retry_events ''/sys/fs/bpf/veth0'' ''xdp_stats_map'' (- 2)\<rparr>)"
    by (simp add: reappear_env_def traffic_env_def start_state_def emit_def)
  have two: "\<forall>j<Suc (Suc 0). \<forall>info'.
      fst (open_bpf_map_file reappear_env (n_open start_state + j) ''/sys/fs/bpf/veth0''
             ''xdp_stats_map'' info') < 0"
    by (simp add: reappear_env_def traffic_env_def start_state_def less_Suc_eq)
  have third: "open_check_bpf_map_file reappear_env ''/sys/fs/bpf/veth0'' ''xdp_stats_map''
        (expected_shape reappear_env) (fst ?F) (snd ?F) =
      ((EXIT_OK, 3, stats_info 2),
       \<lparr>n_clock = 0, n_lookup = 0, n_open = 3,
        trace = retry_events ''/sys/fs/bpf/veth0'' ''xdp_stats_map'' (- 2)
                @ retry_events ''/sys/fs/bpf/veth0'' ''xdp_stats_map'' (- 2)
                @ [Open_map_file ''/sys/fs/bpf/veth0'' ''xdp_stats_map'' 3]\<rparr>)"
    unfolding F
    by (simp add: open_check_bpf_map_file_def check_map_fd_info_def emit_def stats_example_defs)
  have okay: "fst (fst (open_check_bpf_map_file reappear_env ''/sys/fs/bpf/veth0'' ''xdp_stats_map''
        (expected_shape reappear_env) (fst ?F) (snd ?F))) = EXIT_OK"
    unfolding third by simp
  from open_failure_retried_forever [of reappear_env start_state "''/sys/fs/bpf/veth0''"
      "''xdp_stats_map''" "stats_info 1" "expected_shape reappear_env" "Suc (Suc 0)" 2 old_poll_state,
      THEN conjunct2, THEN conjunct1, THEN mp, OF conjI [OF two okay]]
  have recovered: "reopen_loop reappear_env ''/sys/fs/bpf/veth0'' ''xdp_stats_map''
        (expected_shape reappear_env) (stats_info 1) start_state =
      Some ((EXIT_OK, 3, stats_info 2),
       \<lparr>n_clock = 0, n_lookup = 0, n_open = 3,
        trace = retry_events ''/sys/fs/bpf/veth0'' ''xdp_stats_map'' (- 2)
                @ retry_events ''/sys/fs/bpf/veth0'' ''xdp_stats_map'' (- 2)
                @ [Open_map_file ''/sys/fs/bpf/veth0'' ''xdp_stats_map'' 3]\<rparr>)"
    unfolding third .
  from neg never recovered show ?thesis by (simp add: retry_events_def)
qed

text \<open>
  C10.  The inner loop retries on every result of \<^verbatim>\<open>open_check_bpf_map_file\<close> other than
  \<^verbatim>\<open>EXIT_OK\<close>.  A table that opens but has the wrong shape gives such a result, so it is
  retried like a failed open; if no attempt ever succeeds, the loop and the poll loop
  never end.  At startup, \<^verbatim>\<open>main\<close> returns the same result as its exit code instead.
  As long as the clock works and the per-CPU value array fits the stack, the poll loop
  does not end, whatever the opens and the shape checks return.
\<close>

theorem reopen_any_failure_retried:
  "(fst (fst (open_check_bpf_map_file E pin_dir mname map_expect info s)) \<noteq> EXIT_OK \<longrightarrow>
      reopen_loop E pin_dir mname map_expect info s =
        reopen_loop E pin_dir mname map_expect
          (snd (snd (fst (open_check_bpf_map_file E pin_dir mname map_expect info s))))
          (emit [Eprintf ''ERR: map still reloading\<newline>'' [], Usleep 250000]
             (snd (open_check_bpf_map_file E pin_dir mname map_expect info s))))
   \<and> (0 \<le> fst (open_bpf_map_file E (n_open s) pin_dir mname info)
        \<and> check_map_fd_info (snd (open_bpf_map_file E (n_open s) pin_dir mname info)) map_expect \<noteq> 0
       \<longrightarrow> open_check_bpf_map_file E pin_dir mname map_expect info s =
             ((check_map_fd_info (snd (open_bpf_map_file E (n_open s) pin_dir mname info)) map_expect,
               open_bpf_map_file E (n_open s) pin_dir mname info),
              emit [Open_map_file pin_dir mname (fst (open_bpf_map_file E (n_open s) pin_dir mname info)),
                    Eprintf ''ERR: map via FD not compatible\<newline>'' []]
                (s\<lparr>n_open := n_open s + 1\<rparr>))
           \<and> fst (fst (open_check_bpf_map_file E pin_dir mname map_expect info s)) \<noteq> EXIT_OK)
   \<and> ((\<forall>info' s'. n_open s \<le> n_open s' \<longrightarrow>
          fst (fst (open_check_bpf_map_file E pin_dir mname map_expect info' s')) \<noteq> EXIT_OK)
       \<longrightarrow> reopen_loop E pin_dir mname map_expect info s = None
           \<and> poll_loop E pin_dir mname map_expect interval ls s = None)
   \<and> (ifindex cfg \<noteq> - 1 \<and> 0 \<le> s_snprintf_ret E (pin_basedir @ ''/'' @ ifname cfg)
        \<and> fst (fst (open_check_bpf_map_file E (pin_dir_of (ifname cfg)) ''xdp_stats_map''
                       (expected_shape E) zero_info s)) \<noteq> EXIT_OK
       \<longrightarrow> xdp_stats_main E cfg s =
             Some (Exit (fst (fst (open_check_bpf_map_file E (pin_dir_of (ifname cfg))
                                     ''xdp_stats_map'' (expected_shape E) zero_info s))),
                   snd (open_check_bpf_map_file E (pin_dir_of (ifname cfg)) ''xdp_stats_map''
                          (expected_shape E) zero_info s)))
   \<and> ((\<forall>n. 0 \<le> fst (clock_gettime E n)) \<and> values_fit E
       \<longrightarrow> poll_loop E pin_dir mname map_expect interval ls s = None)"
proof (intro conjI impI)
  assume "fst (fst (open_check_bpf_map_file E pin_dir mname map_expect info s)) \<noteq> EXIT_OK"
  then show "reopen_loop E pin_dir mname map_expect info s =
        reopen_loop E pin_dir mname map_expect
          (snd (snd (fst (open_check_bpf_map_file E pin_dir mname map_expect info s))))
          (emit [Eprintf ''ERR: map still reloading\<newline>'' [], Usleep 250000]
             (snd (open_check_bpf_map_file E pin_dir mname map_expect info s)))"
    by (rule reopen_loop_retry)
next
  assume m: "0 \<le> fst (open_bpf_map_file E (n_open s) pin_dir mname info)
        \<and> check_map_fd_info (snd (open_bpf_map_file E (n_open s) pin_dir mname info)) map_expect \<noteq> 0"
  then show "open_check_bpf_map_file E pin_dir mname map_expect info s =
             ((check_map_fd_info (snd (open_bpf_map_file E (n_open s) pin_dir mname info)) map_expect,
               open_bpf_map_file E (n_open s) pin_dir mname info),
              emit [Open_map_file pin_dir mname (fst (open_bpf_map_file E (n_open s) pin_dir mname info)),
                    Eprintf ''ERR: map via FD not compatible\<newline>'' []]
                (s\<lparr>n_open := n_open s + 1\<rparr>))"
    by (simp add: open_check_bpf_map_file_def split_beta Let_def emit_def)
  from m show "fst (fst (open_check_bpf_map_file E pin_dir mname map_expect info s)) \<noteq> EXIT_OK"
    by (simp add: open_check_bpf_map_file_def split_beta Let_def EXIT_OK_def)
next
  assume all: "\<forall>info' s'. n_open s \<le> n_open s' \<longrightarrow>
          fst (fst (open_check_bpf_map_file E pin_dir mname map_expect info' s')) \<noteq> EXIT_OK"
  then show "reopen_loop E pin_dir mname map_expect info s = None"
    by (rule reopen_loop_None)
  have "reopen_loop E pin_dir mname map_expect (ps_info ls) (emit [Close (ps_map_fd ls)] s) = None"
    by (rule reopen_loop_None) (simp add: all)
  then have "poll_iteration E pin_dir mname map_expect interval ls s = None"
    by (simp add: poll_iteration_def)
  then show "poll_loop E pin_dir mname map_expect interval ls s = None"
    by (rule poll_loop_None)
next
  assume "ifindex cfg \<noteq> - 1 \<and> 0 \<le> s_snprintf_ret E (pin_basedir @ ''/'' @ ifname cfg)
        \<and> fst (fst (open_check_bpf_map_file E (pin_dir_of (ifname cfg)) ''xdp_stats_map''
                       (expected_shape E) zero_info s)) \<noteq> EXIT_OK"
  then show "xdp_stats_main E cfg s =
             Some (Exit (fst (fst (open_check_bpf_map_file E (pin_dir_of (ifname cfg))
                                     ''xdp_stats_map'' (expected_shape E) zero_info s))),
                   snd (open_check_bpf_map_file E (pin_dir_of (ifname cfg)) ''xdp_stats_map''
                          (expected_shape E) zero_info s))"
    by (simp add: xdp_stats_main_def c_snprintf_def pin_dir_of_def expected_shape_def
        split_beta Let_def)
next
  assume "(\<forall>n. 0 \<le> fst (clock_gettime E n)) \<and> values_fit E"
  then show "poll_loop E pin_dir mname map_expect interval ls s = None"
    by (intro poll_loop_runs_forever) simp_all
qed

theorem reopen_any_failure_retried_witness:
  "check_map_fd_info ((stats_info 2)\<lparr>max_entries := 4\<rparr>) (expected_shape mismatch_once_env) = EXIT_FAIL
   \<and> reopen_loop mismatch_once_env ''/sys/fs/bpf/veth0'' ''xdp_stats_map''
        (expected_shape mismatch_once_env) (stats_info 1) start_state =
      Some ((EXIT_OK, 3, stats_info 2),
            \<lparr>n_clock = 0, n_lookup = 0, n_open = 2,
             trace = [Open_map_file ''/sys/fs/bpf/veth0'' ''xdp_stats_map'' 3,
                      Eprintf ''ERR: map via FD not compatible\<newline>'' [],
                      Eprintf ''ERR: map still reloading\<newline>'' [],
                      Usleep 250000,
                      Open_map_file ''/sys/fs/bpf/veth0'' ''xdp_stats_map'' 3]\<rparr>)
   \<and> xdp_stats_main mismatch_once_env veth_cfg start_state =
      Some (Exit EXIT_FAIL,
            \<lparr>n_clock = 0, n_lookup = 0, n_open = 1,
             trace = [Open_map_file ''/sys/fs/bpf/veth0'' ''xdp_stats_map'' 3,
                      Eprintf ''ERR: map via FD not compatible\<newline>'' []]\<rparr>)
   \<and> reopen_loop mismatch_env ''/sys/fs/bpf/veth0'' ''xdp_stats_map''
        (expected_shape mismatch_env) (stats_info 1) start_state = None
   \<and> poll_loop mismatch_env ''/sys/fs/bpf/veth0'' ''xdp_stats_map''
        (expected_shape mismatch_env) 2 old_poll_state start_state = None"
proof -
  have h: "\<forall>info' s'. n_open start_state \<le> n_open s' \<longrightarrow>
      fst (fst (open_check_bpf_map_file mismatch_env ''/sys/fs/bpf/veth0'' ''xdp_stats_map''
                  (expected_shape mismatch_env) info' s')) \<noteq> EXIT_OK"
    by (simp add: open_check_bpf_map_file_def check_map_fd_info_def stats_example_defs
        EXIT_FAIL_def EXIT_OK_def)
  note forever = reopen_any_failure_retried [of mismatch_env "''/sys/fs/bpf/veth0''"
      "''xdp_stats_map''" "expected_shape mismatch_env" "stats_info 1" start_state 2
      old_poll_state veth_cfg, THEN conjunct2, THEN conjunct2, THEN conjunct1, THEN mp, OF h]
  let ?E = mismatch_once_env
  let ?x = "expected_shape mismatch_once_env"
  note T = reopen_any_failure_retried [of ?E "''/sys/fs/bpf/veth0''" "''xdp_stats_map''" ?x
      "stats_info 1" start_state 2 old_poll_state veth_cfg]
  have c: "check_map_fd_info ((stats_info 2)\<lparr>max_entries := 4\<rparr>) ?x = EXIT_FAIL"
    by (simp add: check_map_fd_info_def stats_example_defs)
  have o1: "open_check_bpf_map_file ?E ''/sys/fs/bpf/veth0'' ''xdp_stats_map'' ?x (stats_info 1) start_state =
      ((EXIT_FAIL, 3, (stats_info 2)\<lparr>max_entries := 4\<rparr>),
       \<lparr>n_clock = 0, n_lookup = 0, n_open = 1,
        trace = [Open_map_file ''/sys/fs/bpf/veth0'' ''xdp_stats_map'' 3,
                 Eprintf ''ERR: map via FD not compatible\<newline>'' []]\<rparr>)"
    by (simp add: open_check_bpf_map_file_def check_map_fd_info_def emit_def stats_example_defs
        EXIT_FAIL_def)
  have o2: "open_check_bpf_map_file ?E ''/sys/fs/bpf/veth0'' ''xdp_stats_map'' ?x
        ((stats_info 2)\<lparr>max_entries := 4\<rparr>)
        (emit [Eprintf ''ERR: map still reloading\<newline>'' [], Usleep 250000]
           \<lparr>n_clock = 0, n_lookup = 0, n_open = Suc 0,
            trace = [Open_map_file ''/sys/fs/bpf/veth0'' ''xdp_stats_map'' 3,
                     Eprintf ''ERR: map via FD not compatible\<newline>'' []]\<rparr>) =
      ((EXIT_OK, 3, stats_info 2),
       \<lparr>n_clock = 0, n_lookup = 0, n_open = 2,
        trace = [Open_map_file ''/sys/fs/bpf/veth0'' ''xdp_stats_map'' 3,
                 Eprintf ''ERR: map via FD not compatible\<newline>'' [],
                 Eprintf ''ERR: map still reloading\<newline>'' [],
                 Usleep 250000,
                 Open_map_file ''/sys/fs/bpf/veth0'' ''xdp_stats_map'' 3]\<rparr>)"
    by (simp add: open_check_bpf_map_file_def check_map_fd_info_def emit_def stats_example_defs)
  have ne: "EXIT_FAIL \<noteq> EXIT_OK" by (simp add: EXIT_FAIL_def EXIT_OK_def)
  have step: "reopen_loop ?E ''/sys/fs/bpf/veth0'' ''xdp_stats_map'' ?x (stats_info 1) start_state =
      Some ((EXIT_OK, 3, stats_info 2),
            \<lparr>n_clock = 0, n_lookup = 0, n_open = 2,
             trace = [Open_map_file ''/sys/fs/bpf/veth0'' ''xdp_stats_map'' 3,
                      Eprintf ''ERR: map via FD not compatible\<newline>'' [],
                      Eprintf ''ERR: map still reloading\<newline>'' [],
                      Usleep 250000,
                      Open_map_file ''/sys/fs/bpf/veth0'' ''xdp_stats_map'' 3]\<rparr>)"
    using T [THEN conjunct1] ne
    by (simp add: o1) (simp add: reopen_loop_done o2)
  have o3: "open_check_bpf_map_file ?E (pin_dir_of (ifname veth_cfg)) ''xdp_stats_map'' ?x zero_info start_state =
      ((EXIT_FAIL, 3, (stats_info 2)\<lparr>max_entries := 4\<rparr>),
       \<lparr>n_clock = 0, n_lookup = 0, n_open = 1,
        trace = [Open_map_file ''/sys/fs/bpf/veth0'' ''xdp_stats_map'' 3,
                 Eprintf ''ERR: map via FD not compatible\<newline>'' []]\<rparr>)"
    by (simp add: open_check_bpf_map_file_def check_map_fd_info_def emit_def stats_example_defs
        EXIT_FAIL_def loader_example_defs)
  have main: "xdp_stats_main ?E veth_cfg start_state =
      Some (Exit EXIT_FAIL,
            \<lparr>n_clock = 0, n_lookup = 0, n_open = 1,
             trace = [Open_map_file ''/sys/fs/bpf/veth0'' ''xdp_stats_map'' 3,
                      Eprintf ''ERR: map via FD not compatible\<newline>'' []]\<rparr>)"
    using T [THEN conjunct2, THEN conjunct2, THEN conjunct2, THEN conjunct1] ne
    by (simp add: o3) (simp add: veth_cfg_def mismatch_once_env_def traffic_env_def)
  from c step main forever show ?thesis by simp
qed

subsection \<open>The report\<close>

lemma calc_period_cases:
  "calc_period r p = (if timestamp r = timestamp p then Finite 0
      else Finite (real (unat (timestamp r - timestamp p)) / 1000000000))"
  by (simp add: calc_period_def Let_def of_u64_def NANOSEC_PER_SEC_def word_greater_zero_iff)

lemma calc_period_zero_iff: "calc_period r p = Finite 0 \<longleftrightarrow> timestamp r = timestamp p"
  by (simp add: calc_period_cases unsigned_eq_0_iff)

lemma stats_print_row_finite:
  assumes "timestamp r \<noteq> timestamp p"
  shows "prints_no_division_by_zero [stats_print_row E i r p (calc_period r p)]"
  using assms
  by (simp add: prints_no_division_by_zero_def stats_print_row_def calc_period_cases of_u64_def
      Let_def unsigned_eq_0_iff)

lemma prints_no_division_by_zero_simps [simp]:
  "prints_no_division_by_zero []"
  "prints_no_division_by_zero (a @ b) = (prints_no_division_by_zero a \<and> prints_no_division_by_zero b)"
  "prints_no_division_by_zero (e # x # b) =
     (prints_no_division_by_zero [e] \<and> prints_no_division_by_zero (x # b))"
  by (simp_all add: prints_no_division_by_zero_def)

lemma stats_print_loop_finite:
  "prints_no_division_by_zero (stats_print_loop E ks stats_rec stats_prev)"
proof (induction ks)
  case Nil
  show ?case by (simp add: prints_no_division_by_zero_def)
next
  case (Cons k ks)
  show ?case
  proof (cases "timestamp (stats_rec ! k) = timestamp (stats_prev ! k)")
    case True
    then show ?thesis by (simp add: calc_period_zero_iff Let_def)
  next
    case False
    with Cons stats_print_row_finite [OF False, of E k] show ?thesis
      by (cases "stats_print_loop E ks stats_rec stats_prev")
        (simp_all add: calc_period_zero_iff Let_def)
  qed
qed

lemma stats_print_loop_stops:
  assumes "k < n" and "i \<le> k"
    and "timestamp (stats_rec ! k) = timestamp (stats_prev ! k)"
    and "\<forall>j. i \<le> j \<and> j < k \<longrightarrow> timestamp (stats_rec ! j) \<noteq> timestamp (stats_prev ! j)"
  shows "stats_print_loop E [i..<n] stats_rec stats_prev =
         map (\<lambda>j. stats_print_row E j (stats_rec ! j) (stats_prev ! j)
                     (calc_period (stats_rec ! j) (stats_prev ! j))) [i..<k]"
  using assms
proof (induction "k - i" arbitrary: i)
  case 0
  then have "i = k" by simp
  with 0 show ?case by (simp add: upt_conv_Cons calc_period_zero_iff)
next
  case (Suc d)
  then have lt: "i < k" and d: "d = k - Suc i" by simp_all
  with Suc.prems have ne: "timestamp (stats_rec ! i) \<noteq> timestamp (stats_prev ! i)" by simp
  have "stats_print_loop E [Suc i..<n] stats_rec stats_prev =
         map (\<lambda>j. stats_print_row E j (stats_rec ! j) (stats_prev ! j)
                     (calc_period (stats_rec ! j) (stats_prev ! j))) [Suc i..<k]"
    using Suc.prems lt by (intro Suc.hyps(1) [OF d]) auto
  with lt Suc.prems(1) ne show ?case
    by (simp add: upt_conv_Cons calc_period_zero_iff Let_def)
qed

text \<open>
  C8, as the claim states it, fails: with a period of zero for every record,
  \<^verbatim>\<open>stats_print\<close> still prints the three lines of the header.
\<close>

theorem header_printed_at_zero_period:
  "calc_period zero_rec zero_rec = Finite 0
   \<and> stats_print traffic_env (replicate 5 zero_rec) (replicate 5 zero_rec) =
       [Printf ''\<newline>'' [],
        Printf head_fmt [PStr ''XDP-action'', PStr ''packets'', PStr ''packet rate'',
                         PStr ''Bytes'', PStr ''Bit rate'', PStr ''Time period''],
        Printf head_fmt [PStr ''------------'', PStr ''----------------'',
                         PStr ''----------------'', PStr ''------------------'',
                         PStr ''----------------'', PStr ''---------------'']]"
  by (simp add: stats_print_def stats_print_header_def calc_period_def traffic_env_def
      zero_rec_def upt_conv_Cons Let_def)

text \<open>
  C8, amended.  \<^verbatim>\<open>stats_print\<close> never divides by a zero period: no printed value is the
  result of a division by zero, for any two snapshots.  The period of a pair of records is
  zero exactly when their timestamps are equal.  At the first key whose period is zero the
  function returns: it has printed the header and the rows of the keys before, and prints
  neither the row of that key nor anything after it.
\<close>

theorem stats_print_zero_period:
  "prints_no_division_by_zero (stats_print E stats_rec stats_prev)
   \<and> (calc_period r p = Finite 0 \<longleftrightarrow> timestamp r = timestamp p)
   \<and> (k < xdp_action_max E \<and> timestamp (stats_rec ! k) = timestamp (stats_prev ! k)
        \<and> (\<forall>j<k. timestamp (stats_rec ! j) \<noteq> timestamp (stats_prev ! j))
       \<longrightarrow> stats_print E stats_rec stats_prev =
             stats_print_header
             @ map (\<lambda>j. stats_print_row E j (stats_rec ! j) (stats_prev ! j)
                          (calc_period (stats_rec ! j) (stats_prev ! j))) [0..<k])"
proof (intro conjI impI)
  show "prints_no_division_by_zero (stats_print E stats_rec stats_prev)"
    by (simp add: stats_print_def stats_print_loop_finite)
      (simp add: stats_print_header_def prints_no_division_by_zero_def)
  show "calc_period r p = Finite 0 \<longleftrightarrow> timestamp r = timestamp p"
    by (rule calc_period_zero_iff)
next
  assume "k < xdp_action_max E \<and> timestamp (stats_rec ! k) = timestamp (stats_prev ! k)
        \<and> (\<forall>j<k. timestamp (stats_rec ! j) \<noteq> timestamp (stats_prev ! j))"
  then show "stats_print E stats_rec stats_prev =
             stats_print_header
             @ map (\<lambda>j. stats_print_row E j (stats_rec ! j) (stats_prev ! j)
                          (calc_period (stats_rec ! j) (stats_prev ! j))) [0..<k]"
    unfolding stats_print_def
    by (subst stats_print_loop_stops [of k _ 0]) auto
qed

theorem stats_print_zero_period_witness:
  "timestamp (sample_cur ! 1) = timestamp (sample_prev ! 1)
   \<and> timestamp (sample_cur ! 0) \<noteq> timestamp (sample_prev ! 0)
   \<and> stats_print traffic_env sample_cur sample_prev =
       stats_print_header
       @ [Printf row_fmt [PStr ''XDP_ABORTED'', PU64 1100, PDbl (Finite 500), PU64 250,
                          PDbl (Finite 1), PDbl (Finite 2)]]"
proof -
  have a: "timestamp (sample_cur ! 1) = timestamp (sample_prev ! 1)"
    "timestamp (sample_cur ! 0) \<noteq> timestamp (sample_prev ! 0)"
    by (simp_all add: sample_cur_def sample_prev_def zero_rec_def)
  have row: "stats_print_row traffic_env 0 (sample_cur ! 0) (sample_prev ! 0)
                (calc_period (sample_cur ! 0) (sample_prev ! 0)) =
        Printf row_fmt [PStr ''XDP_ABORTED'', PU64 1100, PDbl (Finite 500), PU64 250,
                          PDbl (Finite 1), PDbl (Finite 2)]"
    by (simp add: stats_print_row_def calc_period_def of_u64_def Let_def NANOSEC_PER_SEC_def
        sample_cur_def sample_prev_def zero_rec_def traffic_env_def action_names_def)
  from stats_print_zero_period [of traffic_env sample_cur sample_prev zero_rec zero_rec 1,
      THEN conjunct2, THEN conjunct2] a
  have "stats_print traffic_env sample_cur sample_prev =
        stats_print_header
        @ map (\<lambda>j. stats_print_row traffic_env j (sample_cur ! j) (sample_prev ! j)
                     (calc_period (sample_cur ! j) (sample_prev ! j))) [0..<1]"
    by (simp add: traffic_env_def)
  with a row show ?thesis by simp
qed

subsection \<open>The collection pass\<close>

lemma gettime_ok:
  assumes "0 \<le> fst (clock_gettime E (n_clock s))"
  shows "gettime E s = (Inr (time_of (clock_gettime E (n_clock s))),
           emit [clock_event (clock_gettime E (n_clock s))] (s\<lparr>n_clock := n_clock s + 1\<rparr>))"
  using assms
  by (simp add: gettime_def time_of_def clock_event_def split_beta Let_def)

lemma map_collect_known_type:
  assumes "0 \<le> fst (clock_gettime E (n_clock s))"
    and "map_type = BPF_MAP_TYPE_ARRAY
          \<or> (map_type = BPF_MAP_TYPE_PERCPU_ARRAY \<and> values_fit E)"
  shows "\<exists>r' s'. map_collect E fd map_type k r s = (Inr (True, r'), s')
           \<and> timestamp r' = time_of (clock_gettime E (n_clock s))
           \<and> n_clock s' = n_clock s + 1 \<and> n_lookup s' = n_lookup s + 1 \<and> n_open s' = n_open s
           \<and> trace s' = trace s
               @ [clock_event (clock_gettime E (n_clock s)),
                  Map_lookup fd k (fst (bpf_map_lookup_elem E (n_lookup s) fd k))]
               @ (if fst (bpf_map_lookup_elem E (n_lookup s) fd k) \<noteq> 0
                  then [lookup_failed_msg k] else [])"
  using assms(2)
  by (auto simp add: map_collect_def gettime_ok [OF assms(1)] map_get_value_array_def
      map_get_value_percpu_array_def emit_def split_beta Let_def)

lemma stats_collect_loop_known_type:
  assumes "\<forall>k \<in> set ks. k < length recs" and "distinct ks"
    and "\<forall>j<length ks. 0 \<le> fst (clock_gettime E (n_clock s + j))"
    and "map_type = BPF_MAP_TYPE_ARRAY
          \<or> (map_type = BPF_MAP_TYPE_PERCPU_ARRAY \<and> values_fit E)"
  shows "\<exists>recs' s'. stats_collect_loop E fd map_type ks recs s = (Inr recs', s')
           \<and> length recs' = length recs
           \<and> (\<forall>j<length ks. timestamp (recs' ! (ks ! j)) = time_of (clock_gettime E (n_clock s + j)))
           \<and> (\<forall>k. k \<notin> set ks \<longrightarrow> recs' ! k = recs ! k)
           \<and> n_clock s' = n_clock s + length ks \<and> n_lookup s' = n_lookup s + length ks
           \<and> n_open s' = n_open s
           \<and> trace s' = trace s @ pass_events E fd (n_clock s) (n_lookup s) ks"
  using assms
proof (induction ks arbitrary: recs s)
  case Nil
  then show ?case by simp
next
  case (Cons k ks)
  from Cons.prems(3) have c0: "0 \<le> fst (clock_gettime E (n_clock s))" by force
  from map_collect_known_type [OF c0 Cons.prems(4), of fd "of_nat k" "recs ! k"]
  obtain r1 s1 where
    st: "map_collect E fd map_type (of_nat k) (recs ! k) s = (Inr (True, r1), s1)"
    and ts: "timestamp r1 = time_of (clock_gettime E (n_clock s))"
    and nc: "n_clock s1 = n_clock s + 1" and nl: "n_lookup s1 = n_lookup s + 1"
    and no: "n_open s1 = n_open s"
    and tr: "trace s1 = trace s
               @ [clock_event (clock_gettime E (n_clock s)),
                  Map_lookup fd (of_nat k) (fst (bpf_map_lookup_elem E (n_lookup s) fd (of_nat k)))]
               @ (if fst (bpf_map_lookup_elem E (n_lookup s) fd (of_nat k)) \<noteq> 0
                  then [lookup_failed_msg (of_nat k)] else [])"
    by blast
  have p1: "\<forall>k' \<in> set ks. k' < length (recs[k := r1])" using Cons.prems(1) by simp
  have p2: "distinct ks" using Cons.prems(2) by simp
  have p3: "\<forall>j<length ks. 0 \<le> fst (clock_gettime E (n_clock s1 + j))"
    using Cons.prems(3) nc by (auto simp add: less_Suc_eq_0_disj)
  from Cons.IH [OF p1 p2 p3 Cons.prems(4)]
  obtain recs' s' where
    lp: "stats_collect_loop E fd map_type ks (recs[k := r1]) s1 = (Inr recs', s')"
    and len: "length recs' = length recs"
    and tsi: "\<forall>j<length ks. timestamp (recs' ! (ks ! j)) = time_of (clock_gettime E (n_clock s1 + j))"
    and oth: "\<forall>k'. k' \<notin> set ks \<longrightarrow> recs' ! k' = recs[k := r1] ! k'"
    and nc': "n_clock s' = n_clock s1 + length ks" and nl': "n_lookup s' = n_lookup s1 + length ks"
    and no': "n_open s' = n_open s1"
    and tr': "trace s' = trace s1 @ pass_events E fd (n_clock s1) (n_lookup s1) ks"
    by auto
  have kk: "k \<notin> set ks" "k < length recs" using Cons.prems(1,2) by simp_all
  have a: "stats_collect_loop E fd map_type (k # ks) recs s = (Inr recs', s')"
    by (simp add: st lp)
  have b: "\<forall>j<length (k # ks). timestamp (recs' ! ((k # ks) ! j)) =
              time_of (clock_gettime E (n_clock s + j))"
  proof (intro allI impI)
    fix j assume "j < length (k # ks)"
    show "timestamp (recs' ! ((k # ks) ! j)) = time_of (clock_gettime E (n_clock s + j))"
    proof (cases j)
      case 0
      with oth kk ts show ?thesis by simp
    next
      case (Suc j')
      with \<open>j < length (k # ks)\<close> tsi nc show ?thesis by simp
    qed
  qed
  have c: "\<forall>k'. k' \<notin> set (k # ks) \<longrightarrow> recs' ! k' = recs ! k'"
    using oth by auto
  have d: "trace s' = trace s @ pass_events E fd (n_clock s) (n_lookup s) (k # ks)"
    by (simp add: tr' tr nc nl)
  from a len b c d nc nc' nl nl' no no' show ?case by simp
qed

text \<open>A pass in which every lookup succeeds replaces every record.\<close>

lemma fold_sums:
  "fold (\<lambda>i (p, b). (p + f i, b + g i)) xs (p0, b0) =
     (p0 + sum_list (map f xs), b0 + sum_list (map g xs))"
  by (induction xs arbitrary: p0 b0) (simp_all add: add.assoc)

lemma map_collect_fresh:
  assumes "0 \<le> fst (clock_gettime E (n_clock s))"
    and "map_type = BPF_MAP_TYPE_ARRAY
          \<or> (map_type = BPF_MAP_TYPE_PERCPU_ARRAY \<and> values_fit E)"
    and "fst (bpf_map_lookup_elem E (n_lookup s) fd k) = 0"
  shows "map_collect E fd map_type k r s =
           (Inr (True, \<lparr>timestamp = time_of (clock_gettime E (n_clock s)),
                        total = lookup_total E map_type (n_lookup s) fd k\<rparr>),
            s\<lparr>n_clock := n_clock s + 1, n_lookup := n_lookup s + 1,
              trace := trace s @ [clock_event (clock_gettime E (n_clock s)), Map_lookup fd k 0]\<rparr>)"
  using assms(2,3)
  by (auto simp add: map_collect_def gettime_ok [OF assms(1)] map_get_value_array_def
      map_get_value_percpu_array_def emit_def split_beta Let_def lookup_total_def fold_sums
      BPF_MAP_TYPE_ARRAY_def BPF_MAP_TYPE_PERCPU_ARRAY_def)

lemma stats_collect_loop_fresh:
  assumes "\<forall>k \<in> set ks. k < length recs" and "distinct ks"
    and "\<forall>j<length ks. 0 \<le> fst (clock_gettime E (n_clock s + j))"
    and "map_type = BPF_MAP_TYPE_ARRAY
          \<or> (map_type = BPF_MAP_TYPE_PERCPU_ARRAY \<and> values_fit E)"
    and "\<forall>j<length ks. fst (bpf_map_lookup_elem E (n_lookup s + j) fd (of_nat (ks ! j))) = 0"
  shows "\<exists>recs'. stats_collect_loop E fd map_type ks recs s =
           (Inr recs',
            s\<lparr>n_clock := n_clock s + length ks, n_lookup := n_lookup s + length ks,
              trace := trace s @ pass_events E fd (n_clock s) (n_lookup s) ks\<rparr>)
           \<and> length recs' = length recs
           \<and> (\<forall>j<length ks. recs' ! (ks ! j) =
                  \<lparr>timestamp = time_of (clock_gettime E (n_clock s + j)),
                   total = lookup_total E map_type (n_lookup s + j) fd (of_nat (ks ! j))\<rparr>)
           \<and> (\<forall>k. k \<notin> set ks \<longrightarrow> recs' ! k = recs ! k)"
  using assms
proof (induction ks arbitrary: recs s)
  case Nil
  then show ?case by simp
next
  case (Cons k ks)
  from Cons.prems(3) have c0: "0 \<le> fst (clock_gettime E (n_clock s))" by force
  from Cons.prems(5) have l0: "fst (bpf_map_lookup_elem E (n_lookup s) fd (of_nat k)) = 0" by force
  define r1 where "r1 = \<lparr>timestamp = time_of (clock_gettime E (n_clock s)),
                        total = lookup_total E map_type (n_lookup s) fd (of_nat k)\<rparr>"
  define s1 where "s1 = s\<lparr>n_clock := n_clock s + 1, n_lookup := n_lookup s + 1,
              trace := trace s @ [clock_event (clock_gettime E (n_clock s)),
                                  Map_lookup fd (of_nat k) 0]\<rparr>"
  have st: "map_collect E fd map_type (of_nat k) (recs ! k) s = (Inr (True, r1), s1)"
    unfolding r1_def s1_def by (rule map_collect_fresh [OF c0 Cons.prems(4) l0])
  have nc: "n_clock s1 = n_clock s + 1" and nl: "n_lookup s1 = n_lookup s + 1"
    by (simp_all add: s1_def)
  have p1: "\<forall>k' \<in> set ks. k' < length (recs[k := r1])" using Cons.prems(1) by simp
  have p2: "distinct ks" using Cons.prems(2) by simp
  have p3: "\<forall>j<length ks. 0 \<le> fst (clock_gettime E (n_clock s1 + j))"
    using Cons.prems(3) nc by (auto simp add: less_Suc_eq_0_disj)
  have p5: "\<forall>j<length ks. fst (bpf_map_lookup_elem E (n_lookup s1 + j) fd (of_nat (ks ! j))) = 0"
    using Cons.prems(5) nl by (auto simp add: less_Suc_eq_0_disj)
  from Cons.IH [OF p1 p2 p3 Cons.prems(4) p5]
  obtain recs' where
    lp: "stats_collect_loop E fd map_type ks (recs[k := r1]) s1 =
           (Inr recs',
            s1\<lparr>n_clock := n_clock s1 + length ks, n_lookup := n_lookup s1 + length ks,
               trace := trace s1 @ pass_events E fd (n_clock s1) (n_lookup s1) ks\<rparr>)"
    and len: "length recs' = length recs"
    and fr: "\<forall>j<length ks. recs' ! (ks ! j) =
                  \<lparr>timestamp = time_of (clock_gettime E (n_clock s1 + j)),
                   total = lookup_total E map_type (n_lookup s1 + j) fd (of_nat (ks ! j))\<rparr>"
    and oth: "\<forall>k'. k' \<notin> set ks \<longrightarrow> recs' ! k' = recs[k := r1] ! k'"
    by auto
  have kk: "k \<notin> set ks" "k < length recs" using Cons.prems(1,2) by simp_all
  have a: "stats_collect_loop E fd map_type (k # ks) recs s =
           (Inr recs',
            s\<lparr>n_clock := n_clock s + length (k # ks), n_lookup := n_lookup s + length (k # ks),
              trace := trace s @ pass_events E fd (n_clock s) (n_lookup s) (k # ks)\<rparr>)"
    by (simp add: st lp) (simp add: s1_def l0)
  have b: "\<forall>j<length (k # ks). recs' ! ((k # ks) ! j) =
                  \<lparr>timestamp = time_of (clock_gettime E (n_clock s + j)),
                   total = lookup_total E map_type (n_lookup s + j) fd (of_nat ((k # ks) ! j))\<rparr>"
  proof (intro allI impI)
    fix j assume "j < length (k # ks)"
    show "recs' ! ((k # ks) ! j) =
                  \<lparr>timestamp = time_of (clock_gettime E (n_clock s + j)),
                   total = lookup_total E map_type (n_lookup s + j) fd (of_nat ((k # ks) ! j))\<rparr>"
    proof (cases j)
      case 0
      with oth kk show ?thesis by (simp add: r1_def)
    next
      case (Suc j')
      with \<open>j < length (k # ks)\<close> fr nc nl show ?thesis by simp
    qed
  qed
  have c: "\<forall>k'. k' \<notin> set (k # ks) \<longrightarrow> recs' ! k' = recs ! k'"
    using oth by auto
  from a len b c show ?case by blast
qed

lemma stats_collect_fresh:
  assumes "length stats_rec = xdp_action_max E"
    and "\<forall>j<xdp_action_max E. 0 \<le> fst (clock_gettime E (n_clock s + j))"
    and "map_type = BPF_MAP_TYPE_ARRAY
          \<or> (map_type = BPF_MAP_TYPE_PERCPU_ARRAY \<and> values_fit E)"
    and "\<forall>j<xdp_action_max E. fst (bpf_map_lookup_elem E (n_lookup s + j) fd (of_nat j)) = 0"
  shows "stats_collect E fd map_type stats_rec s =
           (Inr (fresh_snapshot E map_type fd (n_clock s) (n_lookup s)),
            s\<lparr>n_clock := n_clock s + xdp_action_max E, n_lookup := n_lookup s + xdp_action_max E,
              trace := trace s @ pass_events E fd (n_clock s) (n_lookup s) [0..<xdp_action_max E]\<rparr>)"
proof -
  have 1: "\<forall>k \<in> set [0..<xdp_action_max E]. k < length stats_rec" using assms(1) by simp
  have 2: "distinct [0..<xdp_action_max E]" by simp
  have 3: "\<forall>j<length [0..<xdp_action_max E]. 0 \<le> fst (clock_gettime E (n_clock s + j))"
    using assms(2) by simp
  have 5: "\<forall>j<length [0..<xdp_action_max E].
             fst (bpf_map_lookup_elem E (n_lookup s + j) fd (of_nat ([0..<xdp_action_max E] ! j))) = 0"
    using assms(4) by simp
  from stats_collect_loop_fresh [OF 1 2 3 assms(3) 5]
  obtain recs' where
    lp: "stats_collect_loop E fd map_type [0..<xdp_action_max E] stats_rec s =
           (Inr recs',
            s\<lparr>n_clock := n_clock s + xdp_action_max E, n_lookup := n_lookup s + xdp_action_max E,
              trace := trace s @ pass_events E fd (n_clock s) (n_lookup s) [0..<xdp_action_max E]\<rparr>)"
    and len: "length recs' = xdp_action_max E"
    and fr: "\<forall>j<xdp_action_max E. recs' ! j = fresh_record E map_type fd (n_clock s) (n_lookup s) j"
    using assms(1) by (auto simp add: fresh_record_def)
  have "recs' = fresh_snapshot E map_type fd (n_clock s) (n_lookup s)"
    by (rule nth_equalityI) (simp_all add: fresh_snapshot_def len fr)
  with lp show ?thesis by (simp add: stats_collect_def)
qed

lemma replicate5: "replicate 5 x = [x, x, x, x, x]"
  by (simp add: eval_nat_numeral)

lemma list_update_Cons_numeral:
  "(x # xs)[numeral n := y] = x # xs[pred_numeral n := y]"
  by (simp add: numeral_eq_Suc)

lemma upt5: "[0..<5] = [0, 1, 2, 3, 4]"
  by (simp add: upt_conv_Cons)

text \<open>
  A pass over a per-CPU table: with four CPUs the counters are the sums of the four
  values; when the count of CPUs cannot be read, the process is killed after the first
  clock reading, before any lookup.
\<close>

lemma values_fit_traffic: "values_fit traffic_env"
  by (simp add: values_fit_def nr_cpus_def traffic_env_def)

lemma values_do_not_fit: "\<not> values_fit no_cpus_env"
  by (simp add: values_fit_def nr_cpus_def no_cpus_env_def traffic_env_def)

lemma traffic_env_calls:
  "xdp_action_max traffic_env = 5"
  "clock_gettime traffic_env n = (0, int n, 0)"
  "bpf_map_lookup_elem traffic_env n fd k =
     (0, \<lambda>cpu. \<lparr>rx_packets = of_nat (1000 * n), rx_bytes = of_nat (625000 * n)\<rparr>)"
  "uninit_value traffic_env n = \<lparr>rx_packets = 0, rx_bytes = 0\<rparr>"
  "nr_cpus traffic_env = 4"
  by (simp_all add: traffic_env_def nr_cpus_def)

lemma no_cpus_env_calls:
  "xdp_action_max no_cpus_env = 5"
  "clock_gettime no_cpus_env n = (0, int n, 0)"
  by (simp_all add: no_cpus_env_def traffic_env_def)

lemma percpu_pass_killed:
  "stats_collect no_cpus_env 3 BPF_MAP_TYPE_PERCPU_ARRAY (replicate 5 zero_rec) start_state =
     (Inl Killed_SIGSEGV,
      \<lparr>n_clock = 1, n_lookup = 0, n_open = 0, trace = [Clock_gettime 0 0 0]\<rparr>)"
  by (simp add: stats_collect_def no_cpus_env_calls upt5 replicate5 map_collect_def gettime_def
      map_get_value_percpu_array_def values_do_not_fit emit_def start_state_def
      BPF_MAP_TYPE_ARRAY_def BPF_MAP_TYPE_PERCPU_ARRAY_def NANOSEC_PER_SEC_def Let_def)

lemma percpu_pass_sums:
  "stats_collect traffic_env 3 BPF_MAP_TYPE_PERCPU_ARRAY (replicate 5 zero_rec) start_state =
     (Inr [\<lparr>timestamp = 0, total = \<lparr>rx_packets = 0, rx_bytes = 0\<rparr>\<rparr>,
           \<lparr>timestamp = 1000000000, total = \<lparr>rx_packets = 4000, rx_bytes = 2500000\<rparr>\<rparr>,
           \<lparr>timestamp = 2000000000, total = \<lparr>rx_packets = 8000, rx_bytes = 5000000\<rparr>\<rparr>,
           \<lparr>timestamp = 3000000000, total = \<lparr>rx_packets = 12000, rx_bytes = 7500000\<rparr>\<rparr>,
           \<lparr>timestamp = 4000000000, total = \<lparr>rx_packets = 16000, rx_bytes = 10000000\<rparr>\<rparr>],
      \<lparr>n_clock = 5, n_lookup = 5, n_open = 0,
       trace = [Clock_gettime 0 0 0, Map_lookup 3 0 0,
                Clock_gettime 0 1 0, Map_lookup 3 1 0,
                Clock_gettime 0 2 0, Map_lookup 3 2 0,
                Clock_gettime 0 3 0, Map_lookup 3 3 0,
                Clock_gettime 0 4 0, Map_lookup 3 4 0]\<rparr>)"
proof -
  have u: "[0..<4] = [0, 1, 2, 3]" by (simp add: upt_conv_Cons)
  show ?thesis
    by (simp add: stats_collect_def traffic_env_calls upt5 replicate5 list_update_Cons_numeral
      map_collect_def gettime_def map_get_value_percpu_array_def values_fit_traffic u emit_def
      start_state_def zero_rec_def BPF_MAP_TYPE_ARRAY_def BPF_MAP_TYPE_PERCPU_ARRAY_def
      NANOSEC_PER_SEC_def Let_def)
qed


text \<open>
  C5, as the claim states it, fails: a pass over five keys reads the clock five times,
  four of the readings come after the first lookup, and the five records carry five
  different timestamps.
\<close>

theorem one_clock_reading_per_record:
  "stats_collect traffic_env 3 BPF_MAP_TYPE_ARRAY (replicate 5 zero_rec) start_state =
     (Inr [\<lparr>timestamp = 0, total = \<lparr>rx_packets = 0, rx_bytes = 0\<rparr>\<rparr>,
           \<lparr>timestamp = 1000000000, total = \<lparr>rx_packets = 1000, rx_bytes = 625000\<rparr>\<rparr>,
           \<lparr>timestamp = 2000000000, total = \<lparr>rx_packets = 2000, rx_bytes = 1250000\<rparr>\<rparr>,
           \<lparr>timestamp = 3000000000, total = \<lparr>rx_packets = 3000, rx_bytes = 1875000\<rparr>\<rparr>,
           \<lparr>timestamp = 4000000000, total = \<lparr>rx_packets = 4000, rx_bytes = 2500000\<rparr>\<rparr>],
      \<lparr>n_clock = 5, n_lookup = 5, n_open = 0,
       trace = [Clock_gettime 0 0 0, Map_lookup 3 0 0,
                Clock_gettime 0 1 0, Map_lookup 3 1 0,
                Clock_gettime 0 2 0, Map_lookup 3 2 0,
                Clock_gettime 0 3 0, Map_lookup 3 3 0,
                Clock_gettime 0 4 0, Map_lookup 3 4 0]\<rparr>)"
  by (simp add: stats_collect_def upt5 replicate5 list_update_Cons_numeral map_collect_def
      gettime_def map_get_value_array_def
      emit_def traffic_env_def start_state_def zero_rec_def BPF_MAP_TYPE_ARRAY_def
      NANOSEC_PER_SEC_def Let_def)

text \<open>
  C5, amended.  When the clock works and the map type is known (and, for a per-CPU table,
  the value array fits the stack), \<^verbatim>\<open>stats_collect\<close> gives every record its own timestamp: the pass reads the clock once per key, directly before
  the lookup of that key, and record \<open>k\<close> carries the \<open>k\<close>-th reading of the pass.
\<close>

theorem stats_collect_timestamps:
  assumes "length stats_rec = xdp_action_max E"
    and "\<forall>k<xdp_action_max E. 0 \<le> fst (clock_gettime E (n_clock s + k))"
    and "map_type = BPF_MAP_TYPE_ARRAY
          \<or> (map_type = BPF_MAP_TYPE_PERCPU_ARRAY \<and> values_fit E)"
  shows "\<exists>recs' s'. stats_collect E fd map_type stats_rec s = (Inr recs', s')
           \<and> length recs' = xdp_action_max E
           \<and> (\<forall>k<xdp_action_max E.
                 timestamp (recs' ! k) = time_of (clock_gettime E (n_clock s + k)))
           \<and> trace s' = trace s
               @ pass_events E fd (n_clock s) (n_lookup s) [0..<xdp_action_max E]"
proof -
  have 1: "\<forall>k \<in> set [0..<xdp_action_max E]. k < length stats_rec" using assms(1) by simp
  have 2: "distinct [0..<xdp_action_max E]" by simp
  have 3: "\<forall>j<length [0..<xdp_action_max E]. 0 \<le> fst (clock_gettime E (n_clock s + j))"
    using assms(2) by simp
  from stats_collect_loop_known_type [OF 1 2 3 assms(3), of fd]
  show ?thesis
    unfolding stats_collect_def using assms(1) by auto
qed

theorem stats_collect_timestamps_witness:
  "length (replicate 5 zero_rec) = xdp_action_max traffic_env
   \<and> values_fit traffic_env
   \<and> trace (snd (stats_collect traffic_env 3 BPF_MAP_TYPE_PERCPU_ARRAY (replicate 5 zero_rec)
                     start_state)) =
       [Clock_gettime 0 0 0, Map_lookup 3 0 0,
        Clock_gettime 0 1 0, Map_lookup 3 1 0,
        Clock_gettime 0 2 0, Map_lookup 3 2 0,
        Clock_gettime 0 3 0, Map_lookup 3 3 0,
        Clock_gettime 0 4 0, Map_lookup 3 4 0]
   \<and> trace (snd (stats_collect traffic_env 3 BPF_MAP_TYPE_ARRAY (replicate 5 zero_rec) start_state)) =
       [Clock_gettime 0 0 0, Map_lookup 3 0 0,
        Clock_gettime 0 1 0, Map_lookup 3 1 0,
        Clock_gettime 0 2 0, Map_lookup 3 2 0,
        Clock_gettime 0 3 0, Map_lookup 3 3 0,
        Clock_gettime 0 4 0, Map_lookup 3 4 0]
   \<and> map timestamp (projr (fst (stats_collect traffic_env 3 BPF_MAP_TYPE_ARRAY
                                    (replicate 5 zero_rec) start_state))) =
       [0, 1000000000, 2000000000, 3000000000, 4000000000]"
proof -
  have l: "length (replicate 5 zero_rec) = xdp_action_max traffic_env"
    by (simp add: traffic_env_def)
  have c: "\<forall>k<xdp_action_max traffic_env.
             0 \<le> fst (clock_gettime traffic_env (n_clock start_state + k))"
    by (simp add: traffic_env_def)
  from stats_collect_timestamps [OF l c, of BPF_MAP_TYPE_ARRAY 3]
  obtain recs' s' where
    eq: "stats_collect traffic_env 3 BPF_MAP_TYPE_ARRAY (replicate 5 zero_rec) start_state = (Inr recs', s')"
    and len: "length recs' = xdp_action_max traffic_env"
    and ts: "\<forall>k<xdp_action_max traffic_env.
               timestamp (recs' ! k) = time_of (clock_gettime traffic_env (n_clock start_state + k))"
    and tr: "trace s' = trace start_state
               @ pass_events traffic_env 3 (n_clock start_state) (n_lookup start_state)
                   [0..<xdp_action_max traffic_env]"
    by auto
  have t: "trace s' = [Clock_gettime 0 0 0, Map_lookup 3 0 0,
        Clock_gettime 0 1 0, Map_lookup 3 1 0,
        Clock_gettime 0 2 0, Map_lookup 3 2 0,
        Clock_gettime 0 3 0, Map_lookup 3 3 0,
        Clock_gettime 0 4 0, Map_lookup 3 4 0]"
    unfolding tr
    by (simp add: traffic_env_def start_state_def upt5 clock_event_def)
  have "map timestamp recs' = map timestamp (map (\<lambda>k. recs' ! k) [0..<length recs'])"
    by (simp only: map_nth)
  also have "\<dots> = map (\<lambda>k. timestamp (recs' ! k)) [0..<length recs']"
    by simp
  also have "\<dots> = map (\<lambda>k. time_of (clock_gettime traffic_env (n_clock start_state + k))) [0..<5]"
    using ts len by (simp add: traffic_env_def)
  also have "\<dots> = [0, 1000000000, 2000000000, 3000000000, 4000000000]"
    by (simp add: upt5 time_of_def traffic_env_def start_state_def NANOSEC_PER_SEC_def)
  finally have m: "map timestamp recs' = [0, 1000000000, 2000000000, 3000000000, 4000000000]" .
  have k: "BPF_MAP_TYPE_PERCPU_ARRAY = BPF_MAP_TYPE_ARRAY
            \<or> (BPF_MAP_TYPE_PERCPU_ARRAY = BPF_MAP_TYPE_PERCPU_ARRAY \<and> values_fit traffic_env)"
    by (simp add: values_fit_traffic)
  from stats_collect_timestamps [OF l c k, of 3]
  obtain recsp sp where
    eqp: "stats_collect traffic_env 3 BPF_MAP_TYPE_PERCPU_ARRAY (replicate 5 zero_rec) start_state =
            (Inr recsp, sp)"
    and trp: "trace sp = trace start_state
               @ pass_events traffic_env 3 (n_clock start_state) (n_lookup start_state)
                   [0..<xdp_action_max traffic_env]"
    by auto
  have tp: "trace sp = [Clock_gettime 0 0 0, Map_lookup 3 0 0,
        Clock_gettime 0 1 0, Map_lookup 3 1 0,
        Clock_gettime 0 2 0, Map_lookup 3 2 0,
        Clock_gettime 0 3 0, Map_lookup 3 3 0,
        Clock_gettime 0 4 0, Map_lookup 3 4 0]"
    unfolding trp
    by (simp add: traffic_env_def start_state_def upt5 clock_event_def)
  from l t m tp values_fit_traffic show ?thesis by (simp add: eq eqp)
qed

text \<open>
  After a failed lookup, for either map type, the record receives what the uninitialised
  local held, whatever its counters were before.
\<close>

lemma map_collect_failed_lookup:
  assumes "0 \<le> fst (clock_gettime E (n_clock s))"
    and "map_type = BPF_MAP_TYPE_ARRAY
          \<or> (map_type = BPF_MAP_TYPE_PERCPU_ARRAY \<and> values_fit E)"
    and "fst (bpf_map_lookup_elem E (n_lookup s) fd k) \<noteq> 0"
  shows "total (snd (projr (fst (map_collect E fd map_type k r s)))) =
           \<lparr>rx_packets = rx_packets (uninit_value E (n_lookup s)),
            rx_bytes = rx_bytes (uninit_value E (n_lookup s))\<rparr>"
  using assms(2,3)
  by (auto simp add: map_collect_def gettime_ok [OF assms(1)] map_get_value_array_def
      map_get_value_percpu_array_def emit_def split_beta Let_def)

text \<open>
  C2 does not hold of the code.  \<^verbatim>\<open>map_collect\<close> copies its local \<^verbatim>\<open>value\<close> into the
  record also after a failed lookup, which wrote nothing into it: record 1 loses its
  counters 4000 and 256000 and receives the stack content.  The pass does go on with the
  keys 2, 3 and 4.
\<close>

theorem failed_lookup_overwrites_record:
  "total (seen_recs ! 1) = \<lparr>rx_packets = 4000, rx_bytes = 256000\<rparr>
   \<and> stats_collect lookup_fail_env 3 BPF_MAP_TYPE_ARRAY seen_recs start_state =
     (Inr [\<lparr>timestamp = 0, total = \<lparr>rx_packets = 4096, rx_bytes = 262144\<rparr>\<rparr>,
           \<lparr>timestamp = 1000000000, total = \<lparr>rx_packets = 57005, rx_bytes = 48879\<rparr>\<rparr>,
           \<lparr>timestamp = 2000000000, total = \<lparr>rx_packets = 4096, rx_bytes = 262144\<rparr>\<rparr>,
           \<lparr>timestamp = 3000000000, total = \<lparr>rx_packets = 4096, rx_bytes = 262144\<rparr>\<rparr>,
           \<lparr>timestamp = 4000000000, total = \<lparr>rx_packets = 4096, rx_bytes = 262144\<rparr>\<rparr>],
      \<lparr>n_clock = 5, n_lookup = 5, n_open = 0,
       trace = [Clock_gettime 0 0 0, Map_lookup 3 0 0,
                Clock_gettime 0 1 0, Map_lookup 3 1 (- 1),
                Eprintf ''ERR: bpf_map_lookup_elem failed key:0x%X\<newline>'' [PU32 1],
                Clock_gettime 0 2 0, Map_lookup 3 2 0,
                Clock_gettime 0 3 0, Map_lookup 3 3 0,
                Clock_gettime 0 4 0, Map_lookup 3 4 0]\<rparr>)"
  by (simp add: stats_collect_def upt5 replicate5 list_update_Cons_numeral map_collect_def
      gettime_def map_get_value_array_def lookup_failed_msg_def seen_recs_def
      emit_def traffic_env_def lookup_fail_env_def start_state_def BPF_MAP_TYPE_ARRAY_def
      NANOSEC_PER_SEC_def Let_def)

subsection \<open>An iteration of the poll loop\<close>

lemma reopen_traffic:
  "reopen_loop traffic_env ''/sys/fs/bpf/veth0'' ''xdp_stats_map'' (expected_shape traffic_env)
      (stats_info 1) (emit [Close 3] start_state) =
   Some ((EXIT_OK, 3, stats_info 2),
         \<lparr>n_clock = 0, n_lookup = 0, n_open = 1,
          trace = [Close 3, Open_map_file ''/sys/fs/bpf/veth0'' ''xdp_stats_map'' 3]\<rparr>)"
proof -
  have o: "open_check_bpf_map_file traffic_env ''/sys/fs/bpf/veth0'' ''xdp_stats_map''
      (expected_shape traffic_env) (stats_info 1) (emit [Close 3] start_state) =
      ((EXIT_OK, 3, stats_info 2),
         \<lparr>n_clock = 0, n_lookup = 0, n_open = 1,
          trace = [Close 3, Open_map_file ''/sys/fs/bpf/veth0'' ''xdp_stats_map'' 3]\<rparr>)"
    by (simp add: open_check_bpf_map_file_def check_map_fd_info_def emit_def stats_example_defs)
  show ?thesis
    by (subst reopen_loop_done) (simp_all add: o)
qed

lemma collect_baseline:
  "stats_collect traffic_env 3 BPF_MAP_TYPE_ARRAY (replicate 5 zero_rec)
     (emit [Eprintf '' - ERR: map reloaded\<newline>'' []]
        \<lparr>n_clock = 0, n_lookup = 0, n_open = 1,
         trace = [Close 3, Open_map_file ''/sys/fs/bpf/veth0'' ''xdp_stats_map'' 3]\<rparr>) =
   (Inr baseline5,
    \<lparr>n_clock = 5, n_lookup = 5, n_open = 1, trace = take 13 reload_events\<rparr>)"
  by (simp add: stats_collect_def upt5 replicate5 list_update_Cons_numeral map_collect_def
      gettime_def map_get_value_array_def baseline5_def reload_events_def
      emit_def traffic_env_def zero_rec_def BPF_MAP_TYPE_ARRAY_def
      NANOSEC_PER_SEC_def Let_def)

lemma collect_current:
  "stats_collect traffic_env 3 BPF_MAP_TYPE_ARRAY baseline5
     (emit [Usleep 250000]
        \<lparr>n_clock = 5, n_lookup = 5, n_open = 1, trace = take 13 reload_events\<rparr>) =
   (Inr current5,
    \<lparr>n_clock = 10, n_lookup = 10, n_open = 1, trace = reload_events\<rparr>)"
  by (simp add: stats_collect_def upt5 list_update_Cons_numeral map_collect_def
      gettime_def map_get_value_array_def baseline5_def current5_def reload_events_def
      emit_def traffic_env_def BPF_MAP_TYPE_ARRAY_def
      NANOSEC_PER_SEC_def Let_def)

lemma print_reload_report:
  "stats_print traffic_env current5 baseline5 = reload_report"
  by (simp add: stats_print_def stats_print_header_def upt5 stats_print_row_def calc_period_def
      of_u64_def baseline5_def current5_def reload_report_def traffic_env_def action_names_def
      NANOSEC_PER_SEC_def Let_def)

lemma poll_iteration_on_change:
  assumes "reopen_loop E pin_dir mname map_expect (ps_info ls) (emit [Close (ps_map_fd ls)] s) =
             Some ((err, fd, info), s2)"
    and "sint (info_id info) \<noteq> ps_map_id ls"
    and "stats_collect E fd (info_type info) (ps_record ls)
           (emit [Eprintf '' - ERR: map reloaded\<newline>'' []] s2) = (Inr baseline, s4)"
    and "stats_collect E fd (info_type info) baseline (emit [Usleep 250000] s4) = (Inr cur, s6)"
  shows "poll_iteration E pin_dir mname map_expect interval ls s =
           Some (Inr \<lparr>ps_map_id = sint (info_id info), ps_map_type = info_type info,
                      ps_record = cur, ps_map_fd = fd, ps_info = info\<rparr>,
                 emit (stats_print E cur baseline @ [Sleep interval]) s6)"
  using assms
  by (simp add: poll_iteration_def Let_def)

lemma reload_run:
  "sint (info_id (stats_info 2)) \<noteq> ps_map_id old_poll_state"
  "reopen_loop traffic_env ''/sys/fs/bpf/veth0'' ''xdp_stats_map'' (expected_shape traffic_env)
      (ps_info old_poll_state) (emit [Close (ps_map_fd old_poll_state)] start_state) =
      Some ((EXIT_OK, 3, stats_info 2),
         \<lparr>n_clock = 0, n_lookup = 0, n_open = 1,
          trace = [Close 3, Open_map_file ''/sys/fs/bpf/veth0'' ''xdp_stats_map'' 3]\<rparr>)"
  "stats_collect traffic_env 3 (info_type (stats_info 2)) (ps_record old_poll_state)
     (emit [Eprintf '' - ERR: map reloaded\<newline>'' []]
        \<lparr>n_clock = 0, n_lookup = 0, n_open = 1,
         trace = [Close 3, Open_map_file ''/sys/fs/bpf/veth0'' ''xdp_stats_map'' 3]\<rparr>) =
      (Inr baseline5, \<lparr>n_clock = 5, n_lookup = 5, n_open = 1, trace = take 13 reload_events\<rparr>)"
  "stats_collect traffic_env 3 (info_type (stats_info 2)) baseline5
     (emit [Usleep 250000]
        \<lparr>n_clock = 5, n_lookup = 5, n_open = 1, trace = take 13 reload_events\<rparr>) =
      (Inr current5, \<lparr>n_clock = 10, n_lookup = 10, n_open = 1, trace = reload_events\<rparr>)"
proof -
  have i: "ps_map_id old_poll_state = 1" "ps_map_fd old_poll_state = 3"
    "ps_info old_poll_state = stats_info 1" "ps_record old_poll_state = replicate 5 zero_rec"
    by (simp_all add: old_poll_state_def)
  have j: "sint (info_id (stats_info 2)) = 2" "info_type (stats_info 2) = BPF_MAP_TYPE_ARRAY"
    by (simp_all add: stats_info_def)
  show "sint (info_id (stats_info 2)) \<noteq> ps_map_id old_poll_state"
    by (simp add: i j)
  show "reopen_loop traffic_env ''/sys/fs/bpf/veth0'' ''xdp_stats_map'' (expected_shape traffic_env)
      (ps_info old_poll_state) (emit [Close (ps_map_fd old_poll_state)] start_state) =
      Some ((EXIT_OK, 3, stats_info 2),
         \<lparr>n_clock = 0, n_lookup = 0, n_open = 1,
          trace = [Close 3, Open_map_file ''/sys/fs/bpf/veth0'' ''xdp_stats_map'' 3]\<rparr>)"
    by (simp add: i reopen_traffic)
  show "stats_collect traffic_env 3 (info_type (stats_info 2)) (ps_record old_poll_state)
     (emit [Eprintf '' - ERR: map reloaded\<newline>'' []]
        \<lparr>n_clock = 0, n_lookup = 0, n_open = 1,
         trace = [Close 3, Open_map_file ''/sys/fs/bpf/veth0'' ''xdp_stats_map'' 3]\<rparr>) =
      (Inr baseline5, \<lparr>n_clock = 5, n_lookup = 5, n_open = 1, trace = take 13 reload_events\<rparr>)"
    by (simp only: i j collect_baseline)
  show "stats_collect traffic_env 3 (info_type (stats_info 2)) baseline5
     (emit [Usleep 250000]
        \<lparr>n_clock = 5, n_lookup = 5, n_open = 1, trace = take 13 reload_events\<rparr>) =
      (Inr current5, \<lparr>n_clock = 10, n_lookup = 10, n_open = 1, trace = reload_events\<rparr>)"
    by (simp only: j collect_current)
qed

text \<open>
  C1, as the claim states it, fails: in the iteration that finds identifier 2 after
  identifier 1, the loop prints the header and five rows.
\<close>

theorem report_printed_on_generation_change:
  "ps_map_id old_poll_state = 1
   \<and> poll_iteration traffic_env ''/sys/fs/bpf/veth0'' ''xdp_stats_map'' (expected_shape traffic_env)
        2 old_poll_state start_state =
      Some (Inr \<lparr>ps_map_id = 2, ps_map_type = BPF_MAP_TYPE_ARRAY, ps_record = current5,
                 ps_map_fd = 3, ps_info = stats_info 2\<rparr>,
            \<lparr>n_clock = 10, n_lookup = 10, n_open = 1,
             trace = reload_events @ reload_report @ [Sleep 2]\<rparr>)"
  using poll_iteration_on_change [OF reload_run(2) reload_run(1) reload_run(3) reload_run(4), of 2]
  by (simp add: print_reload_report emit_def stats_info_def old_poll_state_def)

text \<open>
  C1, amended.  When the re-opened table's identifier differs from the recorded one, the
  table is of a kind that the collector reads (for a per-CPU table: the value array fits
  the stack), the clock works and the lookups of the iteration succeed, the iteration logs
  the reload, takes a fresh baseline snapshot, waits 250 ms, takes the current snapshot and
  prints the report of this same iteration, with the fresh baseline as the previous
  snapshot; then it sleeps.  Every record of the baseline holds a new clock reading and the
  counters just read from the new table: the snapshot from before the change is
  discarded, and the iteration is the same whatever that snapshot held.
\<close>

theorem generation_change_rebaselines:
  assumes "reopen_loop E pin_dir mname map_expect (ps_info ls) (emit [Close (ps_map_fd ls)] s) =
             Some ((err, fd, info), s2)"
    and "sint (info_id info) \<noteq> ps_map_id ls"
    and "length (ps_record ls) = xdp_action_max E"
    and "info_type info = BPF_MAP_TYPE_ARRAY
          \<or> (info_type info = BPF_MAP_TYPE_PERCPU_ARRAY \<and> values_fit E)"
    and "\<forall>j < 2 * xdp_action_max E. 0 \<le> fst (clock_gettime E (n_clock s2 + j))"
    and "\<forall>j < 2 * xdp_action_max E.
           fst (bpf_map_lookup_elem E (n_lookup s2 + j) fd (of_nat (j mod xdp_action_max E))) = 0"
  shows "poll_iteration E pin_dir mname map_expect interval ls s =
           Some (Inr \<lparr>ps_map_id = sint (info_id info), ps_map_type = info_type info,
                      ps_record = fresh_snapshot E (info_type info) fd
                                    (n_clock s2 + xdp_action_max E) (n_lookup s2 + xdp_action_max E),
                      ps_map_fd = fd, ps_info = info\<rparr>,
                 s2\<lparr>n_clock := n_clock s2 + 2 * xdp_action_max E,
                    n_lookup := n_lookup s2 + 2 * xdp_action_max E,
                    trace := trace s2
                      @ [Eprintf '' - ERR: map reloaded\<newline>'' []]
                      @ pass_events E fd (n_clock s2) (n_lookup s2) [0..<xdp_action_max E]
                      @ [Usleep 250000]
                      @ pass_events E fd (n_clock s2 + xdp_action_max E)
                          (n_lookup s2 + xdp_action_max E) [0..<xdp_action_max E]
                      @ stats_print_header
                      @ stats_print_loop E [0..<xdp_action_max E]
                          (fresh_snapshot E (info_type info) fd
                             (n_clock s2 + xdp_action_max E) (n_lookup s2 + xdp_action_max E))
                          (fresh_snapshot E (info_type info) fd (n_clock s2) (n_lookup s2))
                      @ [Sleep interval]\<rparr>)
         \<and> (length old = xdp_action_max E \<longrightarrow>
              poll_iteration E pin_dir mname map_expect interval (ls\<lparr>ps_record := old\<rparr>) s =
              poll_iteration E pin_dir mname map_expect interval ls s)"
proof -
  let ?N = "xdp_action_max E"
  let ?s3 = "emit [Eprintf '' - ERR: map reloaded\<newline>'' []] s2"
  have run: "poll_iteration E pin_dir mname map_expect interval (ls\<lparr>ps_record := recs\<rparr>) s =
           Some (Inr \<lparr>ps_map_id = sint (info_id info), ps_map_type = info_type info,
                      ps_record = fresh_snapshot E (info_type info) fd
                                    (n_clock s2 + ?N) (n_lookup s2 + ?N),
                      ps_map_fd = fd, ps_info = info\<rparr>,
                 s2\<lparr>n_clock := n_clock s2 + 2 * ?N,
                    n_lookup := n_lookup s2 + 2 * ?N,
                    trace := trace s2
                      @ [Eprintf '' - ERR: map reloaded\<newline>'' []]
                      @ pass_events E fd (n_clock s2) (n_lookup s2) [0..<?N]
                      @ [Usleep 250000]
                      @ pass_events E fd (n_clock s2 + ?N) (n_lookup s2 + ?N) [0..<?N]
                      @ stats_print_header
                      @ stats_print_loop E [0..<?N]
                          (fresh_snapshot E (info_type info) fd (n_clock s2 + ?N) (n_lookup s2 + ?N))
                          (fresh_snapshot E (info_type info) fd (n_clock s2) (n_lookup s2))
                      @ [Sleep interval]\<rparr>)"
    if len: "length recs = ?N" for recs
  proof -
    have c1: "\<forall>j<?N. 0 \<le> fst (clock_gettime E (n_clock ?s3 + j))"
      using assms(5) by (simp add: emit_def)
    have l1: "\<forall>j<?N. fst (bpf_map_lookup_elem E (n_lookup ?s3 + j) fd (of_nat j)) = 0"
    proof (intro allI impI)
      fix j assume "j < ?N"
      with assms(6) [rule_format, of j] show
        "fst (bpf_map_lookup_elem E (n_lookup ?s3 + j) fd (of_nat j)) = 0"
        by (simp add: emit_def)
    qed
    define s4 where "s4 = ?s3\<lparr>n_clock := n_clock ?s3 + ?N, n_lookup := n_lookup ?s3 + ?N,
              trace := trace ?s3 @ pass_events E fd (n_clock ?s3) (n_lookup ?s3) [0..<?N]\<rparr>"
    have b: "stats_collect E fd (info_type info) recs ?s3 =
               (Inr (fresh_snapshot E (info_type info) fd (n_clock s2) (n_lookup s2)), s4)"
      using stats_collect_fresh [OF len c1 assms(4) l1] by (simp add: s4_def emit_def)
    let ?s5 = "emit [Usleep 250000] s4"
    have n5: "n_clock ?s5 = n_clock s2 + ?N" "n_lookup ?s5 = n_lookup s2 + ?N"
      by (simp_all add: s4_def emit_def)
    have c2: "\<forall>j<?N. 0 \<le> fst (clock_gettime E (n_clock ?s5 + j))"
    proof (intro allI impI)
      fix j assume "j < ?N"
      with assms(5) [rule_format, of "?N + j"] show "0 \<le> fst (clock_gettime E (n_clock ?s5 + j))"
        by (simp add: n5 add.assoc)
    qed
    have l2: "\<forall>j<?N. fst (bpf_map_lookup_elem E (n_lookup ?s5 + j) fd (of_nat j)) = 0"
    proof (intro allI impI)
      fix j assume "j < ?N"
      with assms(6) [rule_format, of "?N + j"] show
        "fst (bpf_map_lookup_elem E (n_lookup ?s5 + j) fd (of_nat j)) = 0"
        by (simp add: n5 add.assoc)
    qed
    have lb: "length (fresh_snapshot E (info_type info) fd (n_clock s2) (n_lookup s2)) = ?N"
      by (simp add: fresh_snapshot_def)
    have c: "stats_collect E fd (info_type info)
               (fresh_snapshot E (info_type info) fd (n_clock s2) (n_lookup s2)) ?s5 =
               (Inr (fresh_snapshot E (info_type info) fd (n_clock s2 + ?N) (n_lookup s2 + ?N)),
                ?s5\<lparr>n_clock := n_clock ?s5 + ?N, n_lookup := n_lookup ?s5 + ?N,
                  trace := trace ?s5 @ pass_events E fd (n_clock ?s5) (n_lookup ?s5) [0..<?N]\<rparr>)"
      using stats_collect_fresh [OF lb c2 assms(4) l2] by (simp add: n5)
    have r: "reopen_loop E pin_dir mname map_expect (ps_info (ls\<lparr>ps_record := recs\<rparr>))
               (emit [Close (ps_map_fd (ls\<lparr>ps_record := recs\<rparr>))] s) = Some ((err, fd, info), s2)"
      using assms(1) by simp
    have ch: "sint (info_id info) \<noteq> ps_map_id (ls\<lparr>ps_record := recs\<rparr>)"
      using assms(2) by simp
    have b': "stats_collect E fd (info_type info) (ps_record (ls\<lparr>ps_record := recs\<rparr>)) ?s3 =
               (Inr (fresh_snapshot E (info_type info) fd (n_clock s2) (n_lookup s2)), s4)"
      using b by simp
    show ?thesis
      unfolding poll_iteration_on_change [OF r ch b' c]
      by (simp add: stats_print_def emit_def s4_def)
  qed
  have same: "length old = xdp_action_max E \<longrightarrow>
           poll_iteration E pin_dir mname map_expect interval (ls\<lparr>ps_record := old\<rparr>) s =
           poll_iteration E pin_dir mname map_expect interval ls s"
    using run [of old] run [OF assms(3)] by simp
  from run [OF assms(3)] same show ?thesis by simp
qed

lemma fresh_snapshots_traffic:
  "fresh_snapshot traffic_env BPF_MAP_TYPE_ARRAY 3 0 0 = baseline5"
  "fresh_snapshot traffic_env BPF_MAP_TYPE_ARRAY 3 5 5 = current5"
  by (simp_all add: fresh_snapshot_def fresh_record_def lookup_total_def time_of_def upt5
      traffic_env_def baseline5_def current5_def NANOSEC_PER_SEC_def)

theorem generation_change_rebaselines_witness:
  "sint (info_id (stats_info 2)) \<noteq> ps_map_id seen_poll_state
   \<and> map total (ps_record seen_poll_state) =
       replicate 5 \<lparr>rx_packets = 4000, rx_bytes = 256000\<rparr>
   \<and> poll_iteration traffic_env ''/sys/fs/bpf/veth0'' ''xdp_stats_map''
        (expected_shape traffic_env) 2 seen_poll_state start_state =
      Some (Inr \<lparr>ps_map_id = 2, ps_map_type = BPF_MAP_TYPE_ARRAY, ps_record = current5,
                 ps_map_fd = 3, ps_info = stats_info 2\<rparr>,
            \<lparr>n_clock = 10, n_lookup = 10, n_open = 1,
             trace = reload_events @ reload_report @ [Sleep 2]\<rparr>)"
proof -
  have i: "ps_map_id seen_poll_state = 1" "ps_map_fd seen_poll_state = 3"
    "ps_info seen_poll_state = stats_info 1" "ps_record seen_poll_state = seen_recs"
    by (simp_all add: seen_poll_state_def)
  have j: "sint (info_id (stats_info 2)) = 2" "info_type (stats_info 2) = BPF_MAP_TYPE_ARRAY"
    by (simp_all add: stats_info_def)
  have r: "reopen_loop traffic_env ''/sys/fs/bpf/veth0'' ''xdp_stats_map'' (expected_shape traffic_env)
      (ps_info seen_poll_state) (emit [Close (ps_map_fd seen_poll_state)] start_state) =
      Some ((EXIT_OK, 3, stats_info 2),
         \<lparr>n_clock = 0, n_lookup = 0, n_open = 1,
          trace = [Close 3, Open_map_file ''/sys/fs/bpf/veth0'' ''xdp_stats_map'' 3]\<rparr>)"
    by (simp add: i reopen_traffic)
  have ch: "sint (info_id (stats_info 2)) \<noteq> ps_map_id seen_poll_state"
    by (simp add: i j)
  have len: "length (ps_record seen_poll_state) = xdp_action_max traffic_env"
    by (simp add: i seen_recs_def traffic_env_def)
  have kind: "info_type (stats_info 2) = BPF_MAP_TYPE_ARRAY
          \<or> (info_type (stats_info 2) = BPF_MAP_TYPE_PERCPU_ARRAY \<and> values_fit traffic_env)"
    by (simp add: j)
  have pe: "pass_events traffic_env 3 0 0 [0..<5] @ [Usleep 250000]
              @ pass_events traffic_env 3 5 5 [0..<5] = drop 3 reload_events"
    by (simp add: upt5 traffic_env_def clock_event_def reload_events_def)
  have old: "map total (ps_record seen_poll_state) =
       replicate 5 \<lparr>rx_packets = 4000, rx_bytes = 256000\<rparr>"
    by (simp add: i seen_recs_def)
  have rep: "stats_print_header @ stats_print_loop traffic_env [0..<5] current5 baseline5
               = reload_report"
    using print_reload_report by (simp add: stats_print_def traffic_env_def)
  have xm: "xdp_action_max traffic_env = 5" by (simp add: traffic_env_def)
  from generation_change_rebaselines [OF r ch len kind, of 2 seen_recs, THEN conjunct1]
  have "poll_iteration traffic_env ''/sys/fs/bpf/veth0'' ''xdp_stats_map''
        (expected_shape traffic_env) 2 seen_poll_state start_state =
      Some (Inr \<lparr>ps_map_id = 2, ps_map_type = BPF_MAP_TYPE_ARRAY, ps_record = current5,
                 ps_map_fd = 3, ps_info = stats_info 2\<rparr>,
            \<lparr>n_clock = 10, n_lookup = 10, n_open = 1,
             trace = [Close 3, Open_map_file ''/sys/fs/bpf/veth0'' ''xdp_stats_map'' 3,
                      Eprintf '' - ERR: map reloaded\<newline>'' []]
                     @ (pass_events traffic_env 3 0 0 [0..<5] @ [Usleep 250000]
                        @ pass_events traffic_env 3 5 5 [0..<5])
                     @ (stats_print_header
                        @ stats_print_loop traffic_env [0..<5] current5 baseline5)
                     @ [Sleep 2]\<rparr>)"
    by (simp add: xm j fresh_snapshots_traffic) (simp add: traffic_env_def)
  then have "poll_iteration traffic_env ''/sys/fs/bpf/veth0'' ''xdp_stats_map''
        (expected_shape traffic_env) 2 seen_poll_state start_state =
      Some (Inr \<lparr>ps_map_id = 2, ps_map_type = BPF_MAP_TYPE_ARRAY, ps_record = current5,
                 ps_map_fd = 3, ps_info = stats_info 2\<rparr>,
            \<lparr>n_clock = 10, n_lookup = 10, n_open = 1,
             trace = reload_events @ reload_report @ [Sleep 2]\<rparr>)"
    unfolding pe rep by (simp add: reload_events_def)
  with ch old show ?thesis by simp
qed


end
